theory Spec2Isabelle
  imports Main
begin

section \<open>Python values and exceptions\<close>

text \<open>
  The pipeline of \<^verbatim>\<open>src/spotify.py\<close> moves JSON documents between three steps
  (\<^verbatim>\<open>extract_spotify_data\<close>, \<^verbatim>\<open>transform\<close>, \<^verbatim>\<open>load\<close>). A value that
  \<^verbatim>\<open>json.load\<close> or \<^verbatim>\<open>request.json()\<close> returns is a \<open>json\<close>: \<open>JObj\<close> is a Python
  dict, kept as an association list and read with \<open>map_of\<close>. The code never computes
  with a float, so a float is kept as what it stands for: the literal it was read from,
  the float nearest to an integer, or \<^verbatim>\<open>NaN\<close>.
\<close>

datatype pyfloat = FloatLiteral string | FloatOfInt int | NaN

datatype json =
    JNull
  | JBool bool
  | JInt int
  | JFloat pyfloat
  | JStr string
  | JList "json list"
  | JObj "(string \<times> json) list"

text \<open>The argument of a subscript \<^verbatim>\<open>v[k]\<close>: a string key or an integer index.\<close>

datatype key = Name string | Index int

text \<open>
  The subclasses of Python's \<^verbatim>\<open>Exception\<close> that the modelled calls raise. \<open>NotFound\<close>,
  \<open>Conflict\<close>, \<open>Forbidden\<close> and \<open>BadRequest\<close> are the cloud clients' errors,
  \<open>ConnectionError\<close> is the one of \<^verbatim>\<open>requests\<close>.
\<close>

datatype exception =
    KeyError key
  | IndexError
  | TypeError
  | ValueError
  | JSONDecodeError
  | FileNotFoundError
  | NotFound
  | Conflict
  | Forbidden
  | BadRequest
  | ConnectionError
  | AttributeError

text \<open>
  What leaves a function other than a returned value: an exception that nothing caught,
  or \<^verbatim>\<open>SystemExit\<close>, which \<^verbatim>\<open>exit()\<close> raises and \<^verbatim>\<open>except Exception\<close> does not
  catch.
\<close>

datatype signal = Raised exception | SystemExit

definition bindE :: "'e + 'a \<Rightarrow> ('a \<Rightarrow> 'e + 'b) \<Rightarrow> 'e + 'b" where
  "bindE m f = (case m of Inl e \<Rightarrow> Inl e | Inr x \<Rightarrow> f x)"

text \<open>Python's \<^verbatim>\<open>xs[i]\<close> on a sequence: a negative index counts from the end.\<close>

definition seq_index :: "'a list \<Rightarrow> int \<Rightarrow> exception + 'a" where
  "seq_index xs i =
     (if 0 \<le> i \<and> i < int (length xs) then Inr (xs ! nat i)
      else if i < 0 \<and> - int (length xs) \<le> i then Inr (xs ! nat (int (length xs) + i))
      else Inl IndexError)"

text \<open>
  \<^verbatim>\<open>v[k]\<close>. A dict raises \<^verbatim>\<open>KeyError\<close> on a key it does not hold (the keys of a
  parsed JSON object are strings, so an integer is never one of them); a list or a
  string takes integers only; numbers, booleans and \<^verbatim>\<open>None\<close> are not subscriptable.
\<close>

fun subscript :: "json \<Rightarrow> key \<Rightarrow> exception + json" where
  "subscript (JObj kvs) (Name k) =
     (case map_of kvs k of Some v \<Rightarrow> Inr v | None \<Rightarrow> Inl (KeyError (Name k)))"
| "subscript (JObj kvs) (Index i) = Inl (KeyError (Index i))"
| "subscript (JList xs) (Index i) = seq_index xs i"
| "subscript (JList xs) (Name k) = Inl TypeError"
| "subscript (JStr s) (Index i) = bindE (seq_index s i) (\<lambda>c. Inr (JStr [c]))"
| "subscript (JStr s) (Name k) = Inl TypeError"
| "subscript JNull k = Inl TypeError"
| "subscript (JBool b) k = Inl TypeError"
| "subscript (JInt n) k = Inl TypeError"
| "subscript (JFloat x) k = Inl TypeError"

text \<open>A chain of subscripts \<^verbatim>\<open>v[k1][k2]...\<close>, left to right.\<close>

fun subscripts :: "json \<Rightarrow> key list \<Rightarrow> exception + json" where
  "subscripts v [] = Inr v"
| "subscripts v (k # ks) = bindE (subscript v k) (\<lambda>u. subscripts u ks)"

text \<open>
  What \<^verbatim>\<open>for song in v\<close> runs over: the elements of a list, the keys of a dict, the
  characters of a string; anything else is not iterable.
\<close>

fun iterate :: "json \<Rightarrow> exception + json list" where
  "iterate (JList xs) = Inr xs"
| "iterate (JObj kvs) = Inr (map (\<lambda>kv. JStr (fst kv)) kvs)"
| "iterate (JStr s) = Inr (map (\<lambda>c. JStr [c]) s)"
| "iterate JNull = Inl TypeError"
| "iterate (JBool b) = Inl TypeError"
| "iterate (JInt n) = Inl TypeError"
| "iterate (JFloat x) = Inl TypeError"

section \<open>The projection of \<^verbatim>\<open>transform\<close>\<close>

text \<open>The six lists that \<^verbatim>\<open>transform\<close> fills (lines 142 to 147).\<close>

record song_lists =
  song_names :: "json list"
  album_names :: "json list"
  artist_names :: "json list"
  songs_duration_ms :: "json list"
  songs_popularity :: "json list"
  played_at_list :: "json list"

definition empty_lists :: song_lists where
  "empty_lists =
     \<lparr>song_names = [], album_names = [], artist_names = [], songs_duration_ms = [],
      songs_popularity = [], played_at_list = []\<rparr>"

text \<open>
  One pass of the loop body (lines 152 to 157): six subscript chains, evaluated in the
  order of the source, each value appended to its list. The first chain that raises
  ends the pass with its exception.
\<close>

definition append_song :: "song_lists \<Rightarrow> json \<Rightarrow> exception + song_lists" where
  "append_song acc song =
     bindE (subscripts song [Name ''track'', Name ''name'']) (\<lambda>v1.
     bindE (subscripts song [Name ''track'', Name ''album'', Name ''name'']) (\<lambda>v2.
     bindE (subscripts song
              [Name ''track'', Name ''album'', Name ''artists'', Index 0, Name ''name'']) (\<lambda>v3.
     bindE (subscripts song [Name ''track'', Name ''duration_ms'']) (\<lambda>v4.
     bindE (subscripts song [Name ''track'', Name ''popularity'']) (\<lambda>v5.
     bindE (subscripts song [Name ''played_at'']) (\<lambda>v6.
     Inr \<lparr>song_names = song_names acc @ [v1],
          album_names = album_names acc @ [v2],
          artist_names = artist_names acc @ [v3],
          songs_duration_ms = songs_duration_ms acc @ [v4],
          songs_popularity = songs_popularity acc @ [v5],
          played_at_list = played_at_list acc @ [v6]\<rparr>))))))"

text \<open>The loop of line 151 over the items, in their order.\<close>

fun collect_songs :: "json list \<Rightarrow> song_lists \<Rightarrow> exception + song_lists" where
  "collect_songs [] acc = Inr acc"
| "collect_songs (song # rest) acc = bindE (append_song acc song) (collect_songs rest)"

text \<open>The dictionary of lines 160 to 167 and the column list of line 170.\<close>

definition song_dict :: "song_lists \<Rightarrow> (string \<times> json list) list" where
  "song_dict acc =
     [(''song_name'', song_names acc),
      (''album_name'', album_names acc),
      (''artist_name'', artist_names acc),
      (''duration_ms'', songs_duration_ms acc),
      (''popularity'', songs_popularity acc),
      (''played_at'', played_at_list acc)]"

definition columns :: "string list" where
  "columns =
     [''song_name'', ''album_name'', ''artist_name'', ''duration_ms'', ''popularity'',
      ''played_at'']"

text \<open>
  A pandas data frame: its column names and its rows, each row holding one value per
  column. \<^verbatim>\<open>pd.DataFrame(d, columns=cols)\<close> takes row \<open>i\<close> from position \<open>i\<close> of the
  lists of \<open>d\<close>, in the order of \<open>cols\<close>; a name of \<open>cols\<close> that \<open>d\<close> lacks gives a
  column of missing values; lists of different lengths raise \<^verbatim>\<open>ValueError\<close>.

  Every column gets one type, inferred from its cells. A column of integers stays one of
  integers, and a column that holds a string, a Boolean, a list or a dict keeps its
  cells as they are. A column of numbers and nulls that is neither all integers nor all
  nulls becomes a column of floats: an integer becomes the float nearest to it (50
  becomes 50.0) and a null becomes \<^verbatim>\<open>NaN\<close>. This is the rule for integers that fit 64
  bits; a larger one makes the column a column of objects.
\<close>

definition is_int :: "json \<Rightarrow> bool" where
  "is_int v = (case v of JInt n \<Rightarrow> True | _ \<Rightarrow> False)"

definition is_str :: "json \<Rightarrow> bool" where
  "is_str v = (case v of JStr s \<Rightarrow> True | _ \<Rightarrow> False)"

definition float64_cell :: "json \<Rightarrow> bool" where
  "float64_cell v =
     (case v of
        JInt n \<Rightarrow> - (2 ^ 63) \<le> n \<and> n < 2 ^ 64
      | JFloat x \<Rightarrow> True
      | JNull \<Rightarrow> True
      | _ \<Rightarrow> False)"

definition to_float64 :: "json \<Rightarrow> json" where
  "to_float64 v =
     (case v of JInt n \<Rightarrow> JFloat (FloatOfInt n) | JNull \<Rightarrow> JFloat NaN | _ \<Rightarrow> v)"

definition coerce_column :: "json list \<Rightarrow> json list" where
  "coerce_column cells =
     (if list_all float64_cell cells \<and> \<not> list_all is_int cells
         \<and> \<not> list_all (\<lambda>v. v = JNull) cells
      then map to_float64 cells else cells)"

record dataframe =
  df_columns :: "string list"
  df_rows :: "json list list"

definition DataFrame :: "(string \<times> json list) list \<Rightarrow> string list \<Rightarrow> exception + dataframe" where
  "DataFrame d cols =
     (let n = (case d of [] \<Rightarrow> 0 | kv # _ \<Rightarrow> length (snd kv)) in
      if list_all (\<lambda>kv. length (snd kv) = n) d
      then Inr \<lparr>df_columns = cols,
                df_rows = map (\<lambda>i. map (\<lambda>c. case map_of d c of
                                                  Some xs \<Rightarrow> coerce_column xs ! i
                                                | None \<Rightarrow> JFloat NaN) cols) [0..<n]\<rparr>
      else Inl ValueError)"

text \<open>Lines 151 to 170: from the parsed document to the data frame.\<close>

definition transform_table :: "json \<Rightarrow> exception + dataframe" where
  "transform_table data =
     bindE (subscript data (Name ''items'')) (\<lambda>items.
     bindE (iterate items) (\<lambda>songs.
     bindE (collect_songs songs empty_lists) (\<lambda>acc.
     DataFrame (song_dict acc) columns)))"

text \<open>
  The reading of the specification: an entry of the play history has a track with a
  name, an album (with a name and a first artist with a name), a duration and a
  popularity, and a play timestamp. \<open>entry_row\<close> is the row of such an entry, and
  \<open>None\<close> for a value that is not one.
\<close>

definition field :: "json \<Rightarrow> string \<Rightarrow> json option" where
  "field v k = (case v of JObj kvs \<Rightarrow> map_of kvs k | _ \<Rightarrow> None)"

definition first_artist :: "json \<Rightarrow> json option" where
  "first_artist album =
     (case field album ''artists'' of Some (JList (a # _)) \<Rightarrow> Some a | _ \<Rightarrow> None)"

definition entry_row :: "json \<Rightarrow> json list option" where
  "entry_row e =
     Option.bind (field e ''track'') (\<lambda>t.
     Option.bind (field t ''name'') (\<lambda>song.
     Option.bind (field t ''album'') (\<lambda>al.
     Option.bind (field al ''name'') (\<lambda>album.
     Option.bind (first_artist al) (\<lambda>ar.
     Option.bind (field ar ''name'') (\<lambda>artist.
     Option.bind (field t ''duration_ms'') (\<lambda>dur.
     Option.bind (field t ''popularity'') (\<lambda>pop.
     Option.bind (field e ''played_at'') (\<lambda>played.
     Some [song, album, artist, dur, pop, played])))))))))"

text \<open>
  The types of the six fields under the schema of the destination table: the three names
  and the timestamp are strings, the duration and the popularity are integers.
\<close>

definition typed_cells :: "json list \<Rightarrow> bool" where
  "typed_cells r =
     (length r = 6 \<and> is_str (r ! 0) \<and> is_str (r ! 1) \<and> is_str (r ! 2)
      \<and> is_int (r ! 3) \<and> is_int (r ! 4) \<and> is_str (r ! 5))"

text \<open>The list of artists of the album of an entry's track, when the entry has one.\<close>

definition entry_artists :: "json \<Rightarrow> json option" where
  "entry_artists e =
     Option.bind (field e ''track'') (\<lambda>t.
     Option.bind (field t ''album'') (\<lambda>al. field al ''artists''))"

section \<open>String methods\<close>

text \<open>
  \<^verbatim>\<open>s.split(sep)\<close> for a one-character separator: the pieces between the separators,
  never an empty list.
\<close>

fun str_split :: "char \<Rightarrow> string \<Rightarrow> string list" where
  "str_split sep [] = [[]]"
| "str_split sep (c # cs) =
     (if c = sep then [] # str_split sep cs
      else (case str_split sep cs of [] \<Rightarrow> [[c]] | p # ps \<Rightarrow> (c # p) # ps))"

text \<open>
  \<^verbatim>\<open>s.replace(old, new)\<close>: every occurrence of \<open>old\<close>, found from the left without
  overlap, becomes \<open>new\<close>. With an empty \<open>old\<close> Python puts \<open>new\<close> around every
  character.
\<close>

function str_replace_from :: "string \<Rightarrow> string \<Rightarrow> string \<Rightarrow> string" where
  "str_replace_from old new s =
     (if s = [] then []
      else if old \<noteq> [] \<and> take (length old) s = old
           then new @ str_replace_from old new (drop (length old) s)
      else hd s # str_replace_from old new (tl s))"
  by pat_completeness auto
termination
  by (relation "measure (\<lambda>(old, new, s). length s)") auto

declare str_replace_from.simps [simp del]

definition str_replace :: "string \<Rightarrow> string \<Rightarrow> string \<Rightarrow> string" where
  "str_replace old new s =
     (if old = [] then new @ concat (map (\<lambda>c. c # new) s) else str_replace_from old new s)"

text \<open>
  \<^verbatim>\<open>s.rsplit(sep, 1)\<close>: the string cut at its last separator, or the string alone
  when it holds none.
\<close>

definition str_rsplit1 :: "char \<Rightarrow> string \<Rightarrow> string list" where
  "str_rsplit1 sep s =
     (if sep \<in> set s
      then [rev (tl (dropWhile (\<lambda>c. c \<noteq> sep) (rev s))), rev (takeWhile (\<lambda>c. c \<noteq> sep) (rev s))]
      else [s])"

text \<open>\<^verbatim>\<open>str(n)\<close> of an integer, as an f-string writes it.\<close>

definition digit :: "nat \<Rightarrow> char" where
  "digit d = ''0123456789'' ! d"

fun str_nat :: "nat \<Rightarrow> string" where
  "str_nat n = (if n < 10 then [digit n] else str_nat (n div 10) @ [digit (n mod 10)])"

declare str_nat.simps [simp del]

definition str_int :: "int \<Rightarrow> string" where
  "str_int i = (if i < 0 then CHR ''-'' # str_nat (nat (- i)) else str_nat (nat i))"

section \<open>The world outside the process\<close>

text \<open>
  What a file or a stored object holds: a JSON document (what \<^verbatim>\<open>json.dump\<close> writes and
  \<^verbatim>\<open>json.load\<close> reads back), a delimited text with a header line and rows (what
  \<^verbatim>\<open>to_csv(index=False)\<close> writes), or any other text.
\<close>

datatype content =
    JsonText json
  | CsvText "string list" "json list list"
  | PlainText string

text \<open>
  A row of the warehouse table under the schema of lines 224 to 231: three strings, two
  integers and a timestamp, each nullable. Two rows are the same for
  \<^verbatim>\<open>SELECT DISTINCT\<close> when all six fields agree, \<open>None\<close> agreeing with \<open>None\<close>.
\<close>

type_synonym row =
  "string option \<times> string option \<times> string option \<times> int option \<times> int option \<times> string option"

datatype printed =
    PrintExn exception
  | PrintLine string
  | PrintNewRecords int string

text \<open>
  The state the three steps act on. \<open>faults\<close> is the fault schedule: every call of a
  remote service takes the head of the list, and raises it when it is an exception; an
  empty schedule means that no further call fails for a reason outside the state.
  \<open>files\<close> is the local disk, \<open>buckets\<close> and \<open>blobs\<close> the blob storage (a blob is
  keyed by bucket and object name), \<open>datasets\<close> and \<open>tables\<close> the warehouse (keyed
  by their full ids), \<open>http_get\<close> the body the streaming service answers with,
  \<open>clock_yesterday\<close> and \<open>clock_date\<close> the two readings of the clock that
  \<^verbatim>\<open>extract_spotify_data\<close> takes (the integer timestamp of one day ago, and the
  formatted date), \<open>csv_reader\<close> the rows that a load job with the schema above and
  \<^verbatim>\<open>skip_leading_rows = 1\<close> reads from an object, or the error it fails with.
  Directories are not part of the state: a file is its full path.
\<close>

record world =
  faults :: "exception option list"
  stdout :: "printed list"
  files :: "string \<Rightarrow> content option"
  buckets :: "string set"
  blobs :: "string \<times> string \<Rightarrow> content option"
  http_get :: "string \<Rightarrow> (string \<times> string) list \<Rightarrow> content"
  clock_yesterday :: int
  clock_date :: string
  bq_project :: string
  datasets :: "string set"
  tables :: "string \<Rightarrow> row list option"
  csv_reader :: "content \<Rightarrow> exception + row list"

definition print :: "printed \<Rightarrow> world \<Rightarrow> world" where
  "print x w = w\<lparr>stdout := stdout w @ [x]\<rparr>"

text \<open>What the call of a remote service after \<open>n\<close> others raises under a schedule, if
  anything.\<close>

definition fault_at :: "nat \<Rightarrow> exception option list \<Rightarrow> exception option" where
  "fault_at n fs = (if n < length fs then fs ! n else None)"

definition service_call :: "world \<Rightarrow> (exception + unit) \<times> world" where
  "service_call w =
     ((case fault_at 0 (faults w) of None \<Rightarrow> Inr () | Some e \<Rightarrow> Inl e),
      w\<lparr>faults := drop 1 (faults w)\<rparr>)"

text \<open>Sequencing of two steps that may raise: the second runs when the first returned.\<close>

definition bindS ::
  "(world \<Rightarrow> ('e + 'a) \<times> world) \<Rightarrow> ('a \<Rightarrow> world \<Rightarrow> ('e + 'b) \<times> world) \<Rightarrow>
   world \<Rightarrow> ('e + 'b) \<times> world" where
  "bindS m f w = (case m w of (Inl e, w') \<Rightarrow> (Inl e, w') | (Inr x, w') \<Rightarrow> f x w')"

subsection \<open>Blob storage\<close>

definition storage_Client :: "world \<Rightarrow> (exception + unit) \<times> world" where
  "storage_Client w = service_call w"

text \<open>\<^verbatim>\<open>client.get_bucket(name)\<close>: the bucket, or \<^verbatim>\<open>NotFound\<close>.\<close>

definition get_bucket :: "string \<Rightarrow> world \<Rightarrow> (exception + string option) \<times> world" where
  "get_bucket name =
     bindS service_call (\<lambda>_ w.
       if name \<in> buckets w then (Inr (Some name), w) else (Inl NotFound, w))"

text \<open>
  \<^verbatim>\<open>bucket.blob(name).upload_from_filename(path)\<close>: the local file is opened first, then
  sent.
\<close>

definition upload_from_filename ::
  "string \<Rightarrow> string \<Rightarrow> string \<Rightarrow> world \<Rightarrow> (exception + unit) \<times> world" where
  "upload_from_filename bucket name path w =
     (case files w path of
        None \<Rightarrow> (Inl FileNotFoundError, w)
      | Some c \<Rightarrow>
          bindS service_call
            (\<lambda>_ w'. (Inr (), w'\<lparr>blobs := (blobs w')((bucket, name) \<mapsto> c)\<rparr>)) w)"

definition download_to_filename ::
  "string \<Rightarrow> string \<Rightarrow> string \<Rightarrow> world \<Rightarrow> (exception + unit) \<times> world" where
  "download_to_filename bucket name path =
     bindS service_call (\<lambda>_ w.
       case blobs w (bucket, name) of
         None \<Rightarrow> (Inl NotFound, w)
       | Some c \<Rightarrow> (Inr (), w\<lparr>files := (files w)(path \<mapsto> c)\<rparr>))"

subsection \<open>\<^verbatim>\<open>upload_object_to_bucket\<close> (lines 32 to 61)\<close>

text \<open>
  The body of the \<^verbatim>\<open>try\<close>: \<open>Inr False\<close> is the \<^verbatim>\<open>return False\<close> of line 50,
  \<open>Inr True\<close> is leaving the block towards the \<^verbatim>\<open>return True\<close> of line 61.
\<close>

definition upload_try ::
  "string \<Rightarrow> string \<Rightarrow> string \<Rightarrow> world \<Rightarrow> (exception + bool) \<times> world" where
  "upload_try bucket_name object_path file_name =
     bindS storage_Client (\<lambda>_.
     bindS (get_bucket bucket_name) (\<lambda>bucket.
       case bucket of
         None \<Rightarrow> (\<lambda>w. (Inr False, w))
       | Some b \<Rightarrow>
           bindS (upload_from_filename b file_name object_path) (\<lambda>_ w. (Inr True, w))))"

text \<open>
  \<^verbatim>\<open>except Exception\<close> takes every exception of the body, prints it and returns
  \<^verbatim>\<open>False\<close>; the second handler is never reached.
\<close>

definition upload_object_to_bucket ::
  "string \<Rightarrow> string \<Rightarrow> string option \<Rightarrow> world \<Rightarrow> (signal + bool) \<times> world" where
  "upload_object_to_bucket bucket_name object_path object_key w =
     (let file_name = (case object_key of None \<Rightarrow> object_path | Some k \<Rightarrow> k) in
      case upload_try bucket_name object_path file_name w of
        (Inl e, w') \<Rightarrow> (Inr False, print (PrintExn e) w')
      | (Inr b, w') \<Rightarrow> (Inr b, w'))"

subsection \<open>\<^verbatim>\<open>extract_spotify_data\<close> (lines 63 to 105)\<close>

definition requests_get ::
  "string \<Rightarrow> (string \<times> string) list \<Rightarrow> world \<Rightarrow> (exception + content) \<times> world" where
  "requests_get url headers =
     bindS service_call (\<lambda>_ w. (Inr (http_get w url headers), w))"

text \<open>\<^verbatim>\<open>request.json()\<close> and \<^verbatim>\<open>json.load\<close>: the document, when the text is one.\<close>

definition json_loads :: "content \<Rightarrow> exception + json" where
  "json_loads c = (case c of JsonText j \<Rightarrow> Inr j | _ \<Rightarrow> Inl JSONDecodeError)"

text \<open>
  The headers of lines 66 to 70 (\<open>secret\<close> is the module's \<^verbatim>\<open>SPOTIFY_SECRET\<close>)
  and the address of line 82.
\<close>

definition api_headers :: "string \<Rightarrow> (string \<times> string) list" where
  "api_headers secret =
     [(''Accept'', ''application/json''),
      (''Content-Type'', ''application/json''),
      (''Authorization'', ''Bearer '' @ secret)]"

definition api_url :: "int \<Rightarrow> string" where
  "api_url yesterdays_timestamp =
     ''https://api.spotify.com/v1/me/player/recently-played?after=''
       @ str_int yesterdays_timestamp @ ''&limit=50''"

text \<open>
  Neither the request nor the parsing of its answer stands in a \<^verbatim>\<open>try\<close>, and the
  status of the answer is not looked at; the value of the upload is dropped (line 101).
\<close>

definition extract_spotify_data ::
  "string \<Rightarrow> string \<Rightarrow> world \<Rightarrow> (signal + string) \<times> world" where
  "extract_spotify_data secret bucket_name w =
     (let headers = api_headers secret;
          yesterdays_timestamp = clock_yesterday w * 1000
      in case requests_get (api_url yesterdays_timestamp) headers w of
           (Inl e, w1) \<Rightarrow> (Inl (Raised e), w1)
         | (Inr request, w1) \<Rightarrow>
             (case json_loads request of
                Inl e \<Rightarrow> (Inl (Raised e), w1)
              | Inr data \<Rightarrow>
                  (let date = clock_date w1;
                       file_name = ''/home/airflow/spotify_data/raw/'' @ date @ ''_spotify_data.json'';
                       w2 = w1\<lparr>files := (files w1)(file_name \<mapsto> JsonText data)\<rparr>;
                       object_key = ''raw/'' @ date @ ''_spotify_data.json''
                   in case upload_object_to_bucket bucket_name file_name (Some object_key) w2 of
                        (Inl s, w3) \<Rightarrow> (Inl s, w3)
                      | (Inr _, w3) \<Rightarrow> (Inr (bucket_name @ ''/'' @ object_key), w3))))"

subsection \<open>\<^verbatim>\<open>transform\<close> (lines 107 to 190)\<close>

text \<open>
  The body of the \<^verbatim>\<open>try\<close> of lines 113 to 130, after the three names have been
  derived from the locator.
\<close>

definition transform_try ::
  "string \<Rightarrow> string \<Rightarrow> string \<Rightarrow> world \<Rightarrow> (exception + unit) \<times> world" where
  "transform_try bucket_name object_key local_path =
     bindS storage_Client (\<lambda>_.
     bindS (\<lambda>w. (Inr (), print (PrintLine (''LOCAL PATH: '' @ local_path)) w)) (\<lambda>_.
     bindS (get_bucket bucket_name) (\<lambda>bucket.
       case bucket of
         None \<Rightarrow> (\<lambda>w. (Inl AttributeError, w))
       | Some b \<Rightarrow> download_to_filename b object_key local_path)))"

text \<open>\<^verbatim>\<open>open(path)\<close> and \<^verbatim>\<open>json.load\<close> (lines 136 to 138), outside the \<^verbatim>\<open>try\<close>.\<close>

definition json_load_file :: "string \<Rightarrow> world \<Rightarrow> exception + json" where
  "json_load_file path w =
     (case files w path of None \<Rightarrow> Inl FileNotFoundError | Some c \<Rightarrow> json_loads c)"

definition to_csv :: "dataframe \<Rightarrow> string \<Rightarrow> world \<Rightarrow> world" where
  "to_csv df path w = w\<lparr>files := (files w)(path \<mapsto> CsvText (df_columns df) (df_rows df))\<rparr>"

definition rmtree :: "string \<Rightarrow> world \<Rightarrow> world" where
  "rmtree dir w =
     w\<lparr>files := (\<lambda>path. if take (length dir) path = dir then None else files w path)\<rparr>"

text \<open>
  The names that \<^verbatim>\<open>transform\<close> derives from the locator it receives: the bucket
  (line 119), the key of the object to fetch (line 120), the local path of the raw file
  (line 121), the name of the delimited file (line 177), its local path (line 178) and
  its key in the bucket (line 182). \<^verbatim>\<open>split\<close> never returns an empty list, so
  \<^verbatim>\<open>[0]\<close> and \<^verbatim>\<open>[-1]\<close> are its first and last piece.
\<close>

definition full_object_key_splited :: "string \<Rightarrow> string list" where
  "full_object_key_splited json_object_key = str_split CHR ''/'' json_object_key"

definition bucket_name_of :: "string \<Rightarrow> string" where
  "bucket_name_of json_object_key = hd (full_object_key_splited json_object_key)"

definition raw_object_key :: "string \<Rightarrow> string" where
  "raw_object_key json_object_key =
     str_replace (bucket_name_of json_object_key @ ''/'') [] json_object_key"

definition raw_local_path :: "string \<Rightarrow> string" where
  "raw_local_path json_object_key =
     ''/home/airflow/spotify_data/raw/'' @ last (full_object_key_splited json_object_key)"

definition csv_file_name :: "string \<Rightarrow> string" where
  "csv_file_name json_object_key =
     hd (str_rsplit1 CHR ''.'' (last (full_object_key_splited json_object_key))) @ ''.csv''"

definition csv_local_path :: "string \<Rightarrow> string" where
  "csv_local_path json_object_key =
     ''/home/airflow/spotify_data/transformed/'' @ csv_file_name json_object_key"

definition transformed_object_key :: "string \<Rightarrow> string" where
  "transformed_object_key json_object_key = ''transformed/'' @ csv_file_name json_object_key"

text \<open>
  \<open>json_object_key\<close> is what \<^verbatim>\<open>xcom_pull\<close> hands over from the extraction. An
  exception of the \<^verbatim>\<open>try\<close> is printed and answered with \<^verbatim>\<open>exit()\<close>; what follows
  the \<^verbatim>\<open>try\<close> has no handler; the value of the upload is dropped (line 183).
\<close>

definition transform :: "string \<Rightarrow> world \<Rightarrow> (signal + string) \<times> world" where
  "transform json_object_key w =
     (let bucket_name = bucket_name_of json_object_key in
      case transform_try bucket_name (raw_object_key json_object_key)
             (raw_local_path json_object_key) w of
        (Inl e, w1) \<Rightarrow> (Inl SystemExit, print (PrintExn e) w1)
      | (Inr _, w1) \<Rightarrow>
          (case json_load_file (raw_local_path json_object_key) w1 of
             Inl e \<Rightarrow> (Inl (Raised e), w1)
           | Inr data \<Rightarrow>
               (case transform_table data of
                  Inl e \<Rightarrow> (Inl (Raised e), w1)
                | Inr song_df \<Rightarrow>
                    (let w2 = to_csv song_df (csv_local_path json_object_key) w1 in
                     case upload_object_to_bucket bucket_name (csv_local_path json_object_key)
                            (Some (transformed_object_key json_object_key)) w2 of
                       (Inl s, w3) \<Rightarrow> (Inl s, w3)
                     | (Inr _, w3) \<Rightarrow>
                         (Inr (bucket_name @ ''/'' @ transformed_object_key json_object_key),
                          rmtree ''/home/airflow/spotify_data/'' w3)))))"

subsection \<open>The warehouse\<close>

definition bigquery_Client :: "world \<Rightarrow> (exception + unit) \<times> world" where
  "bigquery_Client w = service_call w"

text \<open>\<^verbatim>\<open>client.get_dataset(id)\<close> resolves the id in the client's project.\<close>

definition get_dataset :: "string \<Rightarrow> world \<Rightarrow> (exception + unit) \<times> world" where
  "get_dataset dataset_id =
     bindS service_call (\<lambda>_ w.
       if bq_project w @ ''.'' @ dataset_id \<in> datasets w then (Inr (), w)
       else (Inl NotFound, w))"

definition create_dataset :: "string \<Rightarrow> world \<Rightarrow> (exception + unit) \<times> world" where
  "create_dataset full_id =
     bindS service_call (\<lambda>_ w.
       if full_id \<in> datasets w then (Inl Conflict, w)
       else (Inr (), w\<lparr>datasets := insert full_id (datasets w)\<rparr>))"

definition get_table :: "string \<Rightarrow> world \<Rightarrow> (exception + row list) \<times> world" where
  "get_table table_id =
     bindS service_call (\<lambda>_ w.
       case tables w table_id of None \<Rightarrow> (Inl NotFound, w) | Some t \<Rightarrow> (Inr t, w))"

text \<open>
  \<^verbatim>\<open>SELECT COUNT(*) FROM t\<close>: a result of one row with one column. The loops of
  lines 243 and 266 add up the first column of the rows of the result.
\<close>

definition query_count :: "string \<Rightarrow> world \<Rightarrow> (exception + int list) \<times> world" where
  "query_count table_id =
     bindS service_call (\<lambda>_ w.
       case tables w table_id of
         None \<Rightarrow> (Inl NotFound, w)
       | Some t \<Rightarrow> (Inr [int (length t)], w))"

definition count_rows :: "int list \<Rightarrow> int" where
  "count_rows query_count_job = fold (\<lambda>row count. count + row) query_count_job 0"

text \<open>
  The object an address \<^verbatim>\<open>gs://bucket/name\<close> stands for: the bucket is what precedes
  the first slash.
\<close>

definition gs_object :: "string \<Rightarrow> world \<Rightarrow> content option" where
  "gs_object uri w =
     (if take 5 uri = ''gs://''
      then blobs w (takeWhile (\<lambda>c. c \<noteq> CHR ''/'') (drop 5 uri),
                    drop 1 (dropWhile (\<lambda>c. c \<noteq> CHR ''/'') (drop 5 uri)))
      else None)"

text \<open>
  \<^verbatim>\<open>client.load_table_from_uri(uri, table_id, job_config)\<close> followed by
  \<^verbatim>\<open>load_job.result()\<close>: the rows read from the object are appended to the table (the
  default write disposition), which is created when it does not exist.
\<close>

definition load_table_from_uri :: "string \<Rightarrow> string \<Rightarrow> world \<Rightarrow> (exception + unit) \<times> world" where
  "load_table_from_uri uri table_id =
     bindS service_call (\<lambda>_ w.
       case gs_object uri w of
         None \<Rightarrow> (Inl NotFound, w)
       | Some c \<Rightarrow>
           (case csv_reader w c of
              Inl e \<Rightarrow> (Inl e, w)
            | Inr new_rows \<Rightarrow>
                (Inr (),
                 w\<lparr>tables := (tables w)(table_id \<mapsto>
                      (case tables w table_id of None \<Rightarrow> [] | Some t \<Rightarrow> t) @ new_rows)\<rparr>)))"

text \<open>
  The deduplication rewrite of lines 258 to 261,
  \<^verbatim>\<open>CREATE OR REPLACE TABLE t AS (SELECT DISTINCT * FROM t)\<close>: what it leaves of the
  rows of a table, and the query on the warehouse.
\<close>

definition select_distinct :: "row list \<Rightarrow> row list" where
  "select_distinct t = remdups t"

definition remove_duplicates :: "string \<Rightarrow> world \<Rightarrow> (exception + unit) \<times> world" where
  "remove_duplicates table_id =
     bindS service_call (\<lambda>_ w.
       case tables w table_id of
         None \<Rightarrow> (Inl NotFound, w)
       | Some t \<Rightarrow> (Inr (), w\<lparr>tables := (tables w)(table_id \<mapsto> select_distinct t)\<rparr>))"

subsection \<open>\<^verbatim>\<open>load\<close> (lines 192 to 274)\<close>

text \<open>The body of the \<^verbatim>\<open>try\<close> of lines 214 to 269.\<close>

definition load_try :: "string \<Rightarrow> string \<Rightarrow> world \<Rightarrow> (exception + unit) \<times> world" where
  "load_try dataset_id csv_object_key w =
     (let table_id = bq_project w @ ''.'' @ dataset_id @ ''.recently_played'' in
      bindS (get_table table_id) (\<lambda>destination_table.
      bindS (query_count table_id) (\<lambda>query_count_job.
      let start_count = count_rows query_count_job in
      bindS (\<lambda>w. (Inr (), print (PrintLine (''OBJECT KEY: '' @ csv_object_key)) w)) (\<lambda>_.
      bindS (load_table_from_uri (''gs://'' @ csv_object_key) table_id) (\<lambda>_.
      bindS (remove_duplicates table_id) (\<lambda>_.
      bindS (query_count table_id) (\<lambda>query_count_job.
      let end_count = count_rows query_count_job in
      (\<lambda>w. (Inr (), print (PrintNewRecords (end_count - start_count) table_id) w)))))))) w)"

text \<open>
  Lines 214 to 274: \<^verbatim>\<open>except Exception\<close> prints the exception of the body and returns
  \<^verbatim>\<open>False\<close>.
\<close>

definition load_table :: "string \<Rightarrow> string \<Rightarrow> world \<Rightarrow> (signal + bool) \<times> world" where
  "load_table dataset_id csv_object_key w =
     (case load_try dataset_id csv_object_key w of
        (Inl e, w') \<Rightarrow> (Inr False, print (PrintExn e) w')
      | (Inr _, w') \<Rightarrow> (Inr True, w'))"

text \<open>
  \<open>csv_object_key\<close> is what \<^verbatim>\<open>xcom_pull\<close> hands over from the transformation. The
  client is made outside every \<^verbatim>\<open>try\<close> (line 198); the handler of the dataset check
  is \<^verbatim>\<open>except NotFound\<close> (line 205), and creating the dataset has a handler of its
  own (line 210). The printed lines are written in ASCII.
\<close>

definition load :: "string \<Rightarrow> world \<Rightarrow> (signal + bool) \<times> world" where
  "load csv_object_key w =
     (case bigquery_Client w of
        (Inl e, w1) \<Rightarrow> (Inl (Raised e), w1)
      | (Inr _, w1) \<Rightarrow>
          (let dataset_id = ''Spotify_Data'' in
           case get_dataset dataset_id w1 of
             (Inr _, w2) \<Rightarrow>
               load_table dataset_id csv_object_key
                 (print (PrintLine (''O dataset '' @ dataset_id @ '' ja existe!'')) w2)
           | (Inl e, w2) \<Rightarrow>
               if e = NotFound
               then (case create_dataset (bq_project w2 @ ''.Spotify_Data'') w2 of
                       (Inl e', w3) \<Rightarrow> (Inr False, print (PrintExn e') w3)
                     | (Inr _, w3) \<Rightarrow>
                         load_table dataset_id csv_object_key
                           (print (PrintLine (''Dataset '' @ [CHR 0x27] @ dataset_id @ [CHR 0x27]
                                                @ '' criado com sucesso!'')) w3))
               else (Inl (Raised e), w2)))"

section \<open>A sample run\<close>

text \<open>
  The document of the end-to-end scenario of the specification: one entry, track
  \<open>A\<close> of album \<open>B\<close> by artist \<open>C\<close>.
\<close>

definition sample_entry :: json where
  "sample_entry =
     JObj [(''track'',
            JObj [(''name'', JStr ''A''),
                  (''album'', JObj [(''name'', JStr ''B''),
                                    (''artists'', JList [JObj [(''name'', JStr ''C'')]])]),
                  (''duration_ms'', JInt 1000),
                  (''popularity'', JInt 50)]),
           (''played_at'', JStr ''2024-01-01T00:00:00Z'')]"

definition sample_document :: json where
  "sample_document = JObj [(''items'', JList [sample_entry])]"

definition sample_cells :: "json list" where
  "sample_cells =
     [JStr ''A'', JStr ''B'', JStr ''C'', JInt 1000, JInt 50, JStr ''2024-01-01T00:00:00Z'']"

text \<open>A second entry, played later: track \<open>D\<close> of album \<open>E\<close> by artist \<open>F\<close>.\<close>

definition second_entry :: json where
  "second_entry =
     JObj [(''track'',
            JObj [(''name'', JStr ''D''),
                  (''album'', JObj [(''name'', JStr ''E''),
                                    (''artists'', JList [JObj [(''name'', JStr ''F'')],
                                                         JObj [(''name'', JStr ''G'')]])]),
                  (''duration_ms'', JInt 2000),
                  (''popularity'', JInt 60)]),
           (''played_at'', JStr ''2024-01-01T00:05:00Z'')]"

definition second_cells :: "json list" where
  "second_cells =
     [JStr ''D'', JStr ''E'', JStr ''F'', JInt 2000, JInt 60, JStr ''2024-01-01T00:05:00Z'']"

definition sample_row :: row where
  "sample_row =
     (Some ''A'', Some ''B'', Some ''C'', Some 1000, Some 50, Some ''2024-01-01T00:00:00Z'')"

text \<open>
  A reader for the sample worlds: it takes rows of six cells, reads a string or an
  integer where the schema asks for one and a null elsewhere, and refuses every other
  object.
\<close>

definition str_cell :: "json \<Rightarrow> string option" where
  "str_cell v = (case v of JStr s \<Rightarrow> Some s | _ \<Rightarrow> None)"

definition int_cell :: "json \<Rightarrow> int option" where
  "int_cell v = (case v of JInt n \<Rightarrow> Some n | _ \<Rightarrow> None)"

definition cells_row :: "json list \<Rightarrow> row" where
  "cells_row cells =
     (str_cell (cells ! 0), str_cell (cells ! 1), str_cell (cells ! 2),
      int_cell (cells ! 3), int_cell (cells ! 4), str_cell (cells ! 5))"

definition sample_reader :: "content \<Rightarrow> exception + row list" where
  "sample_reader c =
     (case c of
        CsvText header rows \<Rightarrow>
          (if list_all (\<lambda>cells. length cells = 6) rows then Inr (map cells_row rows)
           else Inl BadRequest)
      | _ \<Rightarrow> Inl BadRequest)"

text \<open>
  A world in which nothing fails: the bucket \<open>poc_etl\<close> of line 23 holds the raw
  document under \<open>raw/x.json\<close>, the streaming service answers with the document,
  and the table \<open>recently_played\<close> holds the row of the document.
  \<open>transformed_world\<close> is that world once the table form of the document is stored
  under \<open>transformed/x.csv\<close>.
\<close>

definition sample_world :: world where
  "sample_world =
     \<lparr>faults = [],
      stdout = [],
      files = (\<lambda>path. None),
      buckets = {''poc_etl''},
      blobs = (\<lambda>bk. if bk = (''poc_etl'', ''raw/x.json'') then Some (JsonText sample_document)
                     else None),
      http_get = (\<lambda>url headers. JsonText sample_document),
      clock_yesterday = 1704067200,
      clock_date = ''2024-01-02_00-00-00'',
      bq_project = ''demo'',
      datasets = {''demo.Spotify_Data''},
      tables = (\<lambda>table_id. if table_id = ''demo.Spotify_Data.recently_played''
                           then Some [sample_row] else None),
      csv_reader = sample_reader\<rparr>"

definition transformed_world :: world where
  "transformed_world =
     sample_world\<lparr>blobs := (blobs sample_world)
        ((''poc_etl'', ''transformed/x.csv'') \<mapsto> CsvText columns [sample_cells])\<rparr>"

section \<open>Properties of the projection\<close>

lemma subscript_field:
  "field v k = Some u \<Longrightarrow> subscript v (Name k) = Inr u"
  by (cases v) (simp_all add: field_def)

lemma subscripts_append:
  "subscripts v (ks @ ks') = bindE (subscripts v ks) (\<lambda>u. subscripts u ks')"
  by (induction ks arbitrary: v) (simp_all add: bindE_def split: sum.splits)

lemma entry_row_length:
  "entry_row e = Some r \<Longrightarrow> length r = 6"
  by (auto simp: entry_row_def bind_eq_Some_conv)

lemma subscript_first:
  "first_artist al = Some a \<Longrightarrow> subscripts al [Name ''artists'', Index 0] = Inr a"
  by (auto simp: first_artist_def bindE_def seq_index_def dest!: subscript_field
      split: option.splits json.splits list.splits)

lemma entry_row_SomeD:
  assumes "entry_row e = Some r"
  obtains t al ar where
    "field e ''track'' = Some t" "field t ''name'' = Some (r ! 0)"
    "field t ''album'' = Some al" "field al ''name'' = Some (r ! 1)"
    "first_artist al = Some ar" "field ar ''name'' = Some (r ! 2)"
    "field t ''duration_ms'' = Some (r ! 3)" "field t ''popularity'' = Some (r ! 4)"
    "field e ''played_at'' = Some (r ! 5)"
  using assms unfolding entry_row_def bind_eq_Some_conv by force

lemma six_cells:
  "entry_row e = Some r \<Longrightarrow> [r ! 0, r ! 1, r ! 2, r ! 3, r ! 4, r ! 5] = r"
  by (auto simp: entry_row_def bind_eq_Some_conv)

text \<open>A pass of the loop over an entry of the expected shape appends its six fields.\<close>

lemma append_song_entry:
  assumes "entry_row e = Some r"
  shows "append_song acc e =
     Inr \<lparr>song_names = song_names acc @ [r ! 0],
          album_names = album_names acc @ [r ! 1],
          artist_names = artist_names acc @ [r ! 2],
          songs_duration_ms = songs_duration_ms acc @ [r ! 3],
          songs_popularity = songs_popularity acc @ [r ! 4],
          played_at_list = played_at_list acc @ [r ! 5]\<rparr>"
proof -
  from assms obtain t al ar where f:
    "field e ''track'' = Some t" "field t ''name'' = Some (r ! 0)"
    "field t ''album'' = Some al" "field al ''name'' = Some (r ! 1)"
    "first_artist al = Some ar" "field ar ''name'' = Some (r ! 2)"
    "field t ''duration_ms'' = Some (r ! 3)" "field t ''popularity'' = Some (r ! 4)"
    "field e ''played_at'' = Some (r ! 5)"
    by (rule entry_row_SomeD)
  have s: "subscript e (Name ''track'') = Inr t" "subscript t (Name ''name'') = Inr (r ! 0)"
    "subscript t (Name ''album'') = Inr al" "subscript al (Name ''name'') = Inr (r ! 1)"
    "subscript ar (Name ''name'') = Inr (r ! 2)"
    "subscript t (Name ''duration_ms'') = Inr (r ! 3)"
    "subscript t (Name ''popularity'') = Inr (r ! 4)"
    "subscript e (Name ''played_at'') = Inr (r ! 5)"
    using f by (simp_all add: subscript_field)
  have a: "subscripts al [Name ''artists'', Index 0, Name ''name''] = Inr (r ! 2)"
    using subscripts_append [of al "[Name ''artists'', Index 0]" "[Name ''name'']"]
      subscript_first [OF f(5)] s(5)
    by (simp add: bindE_def)
  show ?thesis
    using a by (simp add: append_song_def bindE_def s)
qed

lemma collect_songs_entries:
  "\<forall>e \<in> set es. entry_row e \<noteq> None \<Longrightarrow>
   collect_songs es acc =
     Inr \<lparr>song_names = song_names acc @ map (\<lambda>e. the (entry_row e) ! 0) es,
          album_names = album_names acc @ map (\<lambda>e. the (entry_row e) ! 1) es,
          artist_names = artist_names acc @ map (\<lambda>e. the (entry_row e) ! 2) es,
          songs_duration_ms = songs_duration_ms acc @ map (\<lambda>e. the (entry_row e) ! 3) es,
          songs_popularity = songs_popularity acc @ map (\<lambda>e. the (entry_row e) ! 4) es,
          played_at_list = played_at_list acc @ map (\<lambda>e. the (entry_row e) ! 5) es\<rparr>"
proof (induction es arbitrary: acc)
  case Nil
  then show ?case by simp
next
  case (Cons e es)
  then obtain r where r: "entry_row e = Some r" by auto
  show ?case
    using Cons.IH [of "\<lparr>song_names = song_names acc @ [r ! 0],
          album_names = album_names acc @ [r ! 1],
          artist_names = artist_names acc @ [r ! 2],
          songs_duration_ms = songs_duration_ms acc @ [r ! 3],
          songs_popularity = songs_popularity acc @ [r ! 4],
          played_at_list = played_at_list acc @ [r ! 5]\<rparr>"] Cons.prems
    by (simp add: append_song_entry [OF r] bindE_def r)
qed

text \<open>What the inference of a column's type does to some columns.\<close>

lemma coerce_column_ints: "list_all is_int cells \<Longrightarrow> coerce_column cells = cells"
  by (simp add: coerce_column_def)

lemma coerce_column_strs: "list_all is_str cells \<Longrightarrow> coerce_column cells = cells"
  by (cases cells) (auto simp: coerce_column_def is_str_def float64_cell_def split: json.splits)

lemma coerce_column_null:
  "coerce_column [JInt 50, JNull] = [JFloat (FloatOfInt 50), JFloat NaN]"
  by (simp add: coerce_column_def float64_cell_def is_int_def to_float64_def)

lemma DataFrame_rows:
  assumes "\<forall>e \<in> set es. \<exists>r. entry_row e = Some r \<and> typed_cells r"
  shows "DataFrame (song_dict
     \<lparr>song_names = map (\<lambda>e. the (entry_row e) ! 0) es,
          album_names = map (\<lambda>e. the (entry_row e) ! 1) es,
          artist_names = map (\<lambda>e. the (entry_row e) ! 2) es,
          songs_duration_ms = map (\<lambda>e. the (entry_row e) ! 3) es,
          songs_popularity = map (\<lambda>e. the (entry_row e) ! 4) es,
          played_at_list = map (\<lambda>e. the (entry_row e) ! 5) es\<rparr>) columns
    = Inr \<lparr>df_columns = columns, df_rows = map (\<lambda>e. the (entry_row e)) es\<rparr>"
proof -
  let ?c = "\<lambda>k. map (\<lambda>e. the (entry_row e) ! k) es"
  let ?rows = "map (\<lambda>i. [?c 0 ! i, ?c 1 ! i, ?c 2 ! i, ?c 3 ! i, ?c 4 ! i, ?c 5 ! i]) [0..<length es]"
  have s: "list_all is_str (?c 0)" "list_all is_str (?c (Suc 0))" "list_all is_str (?c 2)"
    "list_all is_str (?c 5)"
    using assms by (auto simp: list_all_iff typed_cells_def)
  have i: "list_all is_int (?c 3)" "list_all is_int (?c 4)"
    using assms by (auto simp: list_all_iff typed_cells_def)
  note c = s [THEN coerce_column_strs] i [THEN coerce_column_ints]
  have "?rows = map (\<lambda>e. the (entry_row e)) es"
  proof (rule nth_equalityI)
    fix i assume "i < length ?rows"
    then have i: "i < length es" by simp
    with assms obtain r where "entry_row (es ! i) = Some r" by (metis nth_mem)
    then show "?rows ! i = map (\<lambda>e. the (entry_row e)) es ! i"
      using i six_cells [of "es ! i" r] by simp
  qed simp
  then show ?thesis
    by (simp add: DataFrame_def song_dict_def columns_def c)
qed

lemma transform_table_entries:
  assumes "field data ''items'' = Some (JList entries)"
    and "\<forall>e \<in> set entries. \<exists>r. entry_row e = Some r \<and> typed_cells r"
  shows "transform_table data =
     Inr \<lparr>df_columns = columns, df_rows = map (\<lambda>e. the (entry_row e)) entries\<rparr>"
proof -
  have n: "\<forall>e \<in> set entries. entry_row e \<noteq> None"
    using assms(2) by auto
  show ?thesis
    using DataFrame_rows [OF assms(2)]
    by (simp add: transform_table_def bindE_def subscript_field [OF assms(1)]
        collect_songs_entries [OF n] empty_lists_def)
qed


section \<open>Properties of the calls\<close>

lemma fault_at_drop [simp]: "fault_at n (drop k fs) = fault_at (n + k) fs"
  by (auto simp: fault_at_def add.commute)

lemma fault_at_Nil [simp]: "fault_at n [] = None"
  by (simp add: fault_at_def)

lemma service_call_no_faults: "faults w = [] \<Longrightarrow> service_call w = (Inr (), w)"
  by (simp add: service_call_def fault_at_def)

text \<open>The helper never raises: its result is a Boolean.\<close>

lemma upload_returns_bool:
  "\<exists>b w'. upload_object_to_bucket bucket_name object_path object_key w = (Inr b, w')"
  by (auto simp: upload_object_to_bucket_def split: prod.splits sum.splits)

lemmas upload_defs = upload_object_to_bucket_def upload_try_def storage_Client_def get_bucket_def
      upload_from_filename_def bindS_def service_call_def print_def

lemma upload_result:
  "fst (upload_object_to_bucket bucket_name object_path object_key w)
     = Inr (fault_at 0 (faults w) = None \<and> fault_at 1 (faults w) = None \<and> bucket_name \<in> buckets w
               \<and> files w object_path \<noteq> None \<and> fault_at 2 (faults w) = None)"
  by (auto simp: upload_defs numeral_2_eq_2 split: option.splits)

lemma upload_True_blob:
  "fst (upload_object_to_bucket bucket_name object_path object_key w) = Inr True \<Longrightarrow>
   blobs (snd (upload_object_to_bucket bucket_name object_path object_key w))
     = (blobs w)((bucket_name, case object_key of None \<Rightarrow> object_path | Some k \<Rightarrow> k)
                   := files w object_path)"
  by (auto simp: upload_defs split: option.splits if_splits)

lemma upload_False_blobs:
  "fst (upload_object_to_bucket bucket_name object_path object_key w) = Inr False \<Longrightarrow>
   blobs (snd (upload_object_to_bucket bucket_name object_path object_key w)) = blobs w"
  by (auto simp: upload_defs split: option.splits if_splits)

lemma upload_faults:
  "\<exists>n \<le> 3. faults (snd (upload_object_to_bucket bucket_name object_path object_key w))
     = drop n (faults w)"
proof -
  have "faults (snd (upload_object_to_bucket bucket_name object_path object_key w))
     \<in> {drop 1 (faults w), drop 2 (faults w), drop 3 (faults w)}"
    by (auto simp: upload_defs numeral_2_eq_2 numeral_3_eq_3 split: option.splits if_splits)
  then consider "faults (snd (upload_object_to_bucket bucket_name object_path object_key w)) = drop 1 (faults w)"
    | "faults (snd (upload_object_to_bucket bucket_name object_path object_key w)) = drop 2 (faults w)"
    | "faults (snd (upload_object_to_bucket bucket_name object_path object_key w)) = drop 3 (faults w)"
    by auto
  then show ?thesis
  proof cases
    case 1 then show ?thesis by (intro exI [of _ 1]) simp
  next
    case 2 then show ?thesis by (intro exI [of _ 2]) simp
  next
    case 3 then show ?thesis by (intro exI [of _ 3]) simp
  qed
qed

lemma upload_frame:
  "files (snd (upload_object_to_bucket bucket_name object_path object_key w)) = files w"
  "buckets (snd (upload_object_to_bucket bucket_name object_path object_key w)) = buckets w"
  "tables (snd (upload_object_to_bucket bucket_name object_path object_key w)) = tables w"
  by (auto simp: upload_defs split: option.splits if_splits)

lemma extract_request_fault:
  "fault_at 0 (faults w) = Some e \<Longrightarrow> fst (extract_spotify_data secret bucket_name w) = Inl (Raised e)"
  by (simp add: extract_spotify_data_def requests_get_def bindS_def service_call_def)

lemma extract_bad_answer:
  "fault_at 0 (faults w) = None \<Longrightarrow>
   json_loads (http_get w (api_url (clock_yesterday w * 1000)) (api_headers secret)) = Inl e \<Longrightarrow>
   fst (extract_spotify_data secret bucket_name w) = Inl (Raised e)"
  by (simp add: extract_spotify_data_def requests_get_def bindS_def service_call_def)

lemma extract_answered:
  assumes "fault_at 0 (faults w) = None"
    and "http_get w (api_url (clock_yesterday w * 1000)) (api_headers secret) = JsonText data"
  shows "extract_spotify_data secret bucket_name w =
     (Inr (bucket_name @ ''/raw/'' @ clock_date w @ ''_spotify_data.json''),
      snd (upload_object_to_bucket bucket_name
             (''/home/airflow/spotify_data/raw/'' @ clock_date w @ ''_spotify_data.json'')
             (Some (''raw/'' @ clock_date w @ ''_spotify_data.json''))
             (w\<lparr>faults := drop 1 (faults w),
                files := (files w)(''/home/airflow/spotify_data/raw/'' @ clock_date w
                                     @ ''_spotify_data.json'' \<mapsto> JsonText data)\<rparr>)))"
proof -
  obtain b w' where u: "upload_object_to_bucket bucket_name
             (''/home/airflow/spotify_data/raw/'' @ clock_date w @ ''_spotify_data.json'')
             (Some (''raw/'' @ clock_date w @ ''_spotify_data.json''))
             (w\<lparr>faults := drop 1 (faults w),
                files := (files w)(''/home/airflow/spotify_data/raw/'' @ clock_date w
                                     @ ''_spotify_data.json'' \<mapsto> JsonText data)\<rparr>) = (Inr b, w')"
    using upload_returns_bool by blast
  show ?thesis
    using assms u
    by (simp add: extract_spotify_data_def requests_get_def bindS_def service_call_def
        json_loads_def)
qed

section \<open>Properties of \<^verbatim>\<open>transform\<close>\<close>

lemmas transform_try_defs = transform_try_def storage_Client_def get_bucket_def
  download_to_filename_def bindS_def service_call_def print_def

lemma transform_try_frame:
  "blobs (snd (transform_try bucket_name object_key local_path w)) = blobs w"
  "buckets (snd (transform_try bucket_name object_key local_path w)) = buckets w"
  by (auto simp: transform_try_defs split: option.splits)

lemma transform_try_no_faults:
  assumes "faults w = []" "bucket_name \<in> buckets w" "blobs w (bucket_name, object_key) = Some c"
  shows "transform_try bucket_name object_key local_path w =
     (Inr (), w\<lparr>stdout := stdout w @ [PrintLine (''LOCAL PATH: '' @ local_path)],
                  files := (files w)(local_path \<mapsto> c)\<rparr>)"
  using assms
  by (simp add: transform_try_def storage_Client_def get_bucket_def download_to_filename_def
      bindS_def service_call_no_faults print_def)

lemma transform_exit:
  assumes "fst (transform_try (bucket_name_of k) (raw_object_key k) (raw_local_path k) w) = Inl e"
  shows "transform k w =
     (Inl SystemExit,
      print (PrintExn e)
        (snd (transform_try (bucket_name_of k) (raw_object_key k) (raw_local_path k) w)))"
  using assms by (cases "transform_try (bucket_name_of k) (raw_object_key k) (raw_local_path k) w")
    (simp add: transform_def Let_def)

lemma transform_parse_raises:
  assumes "fst (transform_try (bucket_name_of k) (raw_object_key k) (raw_local_path k) w) = Inr u"
    and "json_load_file (raw_local_path k)
           (snd (transform_try (bucket_name_of k) (raw_object_key k) (raw_local_path k) w)) = Inl e"
  shows "transform k w =
     (Inl (Raised e), snd (transform_try (bucket_name_of k) (raw_object_key k) (raw_local_path k) w))"
  using assms by (cases "transform_try (bucket_name_of k) (raw_object_key k) (raw_local_path k) w")
    (simp add: transform_def Let_def)

lemma transform_table_raises:
  assumes "fst (transform_try (bucket_name_of k) (raw_object_key k) (raw_local_path k) w) = Inr u"
    and "json_load_file (raw_local_path k)
           (snd (transform_try (bucket_name_of k) (raw_object_key k) (raw_local_path k) w)) = Inr data"
    and "transform_table data = Inl e"
  shows "transform k w =
     (Inl (Raised e), snd (transform_try (bucket_name_of k) (raw_object_key k) (raw_local_path k) w))"
  using assms by (cases "transform_try (bucket_name_of k) (raw_object_key k) (raw_local_path k) w")
    (simp add: transform_def Let_def)

lemma transform_returns:
  assumes "fst (transform_try (bucket_name_of k) (raw_object_key k) (raw_local_path k) w) = Inr u"
    and "json_load_file (raw_local_path k)
           (snd (transform_try (bucket_name_of k) (raw_object_key k) (raw_local_path k) w)) = Inr data"
    and "transform_table data = Inr df"
  shows "transform k w =
     (Inr (bucket_name_of k @ ''/'' @ transformed_object_key k),
      rmtree ''/home/airflow/spotify_data/''
        (snd (upload_object_to_bucket (bucket_name_of k) (csv_local_path k)
                (Some (transformed_object_key k))
                (to_csv df (csv_local_path k)
                   (snd (transform_try (bucket_name_of k) (raw_object_key k)
                           (raw_local_path k) w))))))"
proof -
  obtain b w' where "upload_object_to_bucket (bucket_name_of k) (csv_local_path k)
                (Some (transformed_object_key k))
                (to_csv df (csv_local_path k)
                   (snd (transform_try (bucket_name_of k) (raw_object_key k)
                           (raw_local_path k) w))) = (Inr b, w')"
    using upload_returns_bool by blast
  with assms show ?thesis
    by (cases "transform_try (bucket_name_of k) (raw_object_key k) (raw_local_path k) w")
      (simp add: transform_def Let_def)
qed

lemma transform_result_locator:
  assumes "fst (transform k w) = Inr r"
  shows "r = bucket_name_of k @ ''/'' @ transformed_object_key k"
proof -
  let ?t = "transform_try (bucket_name_of k) (raw_object_key k) (raw_local_path k) w"
  show ?thesis
  proof (cases "fst ?t")
    case (Inl e)
    then show ?thesis using assms transform_exit [of k w e] by simp
  next
    case (Inr u)
    show ?thesis
    proof (cases "json_load_file (raw_local_path k) (snd ?t)")
      case (Inl e)
      then show ?thesis using assms transform_parse_raises [OF Inr, of e] by simp
    next
      case data: (Inr data)
      show ?thesis
      proof (cases "transform_table data")
        case (Inl e)
        then show ?thesis using assms transform_table_raises [OF Inr data, of e] by simp
      next
        case df: (Inr df)
        then show ?thesis using assms transform_returns [OF Inr data df] by simp
      qed
    qed
  qed
qed

lemma transform_blobs_frame:
  assumes "bk \<noteq> (bucket_name_of k, transformed_object_key k)"
  shows "blobs (snd (transform k w)) bk = blobs w bk"
proof -
  let ?t = "transform_try (bucket_name_of k) (raw_object_key k) (raw_local_path k) w"
  show ?thesis
  proof (cases "fst ?t")
    case (Inl e)
    then show ?thesis
      using transform_exit [of k w e] by (simp add: print_def transform_try_frame)
  next
    case (Inr u)
    show ?thesis
    proof (cases "json_load_file (raw_local_path k) (snd ?t)")
      case (Inl e)
      then show ?thesis
        using transform_parse_raises [OF Inr, of e] by (simp add: transform_try_frame)
    next
      case data: (Inr data)
      show ?thesis
      proof (cases "transform_table data")
        case (Inl e)
        then show ?thesis
          using transform_table_raises [OF Inr data, of e] by (simp add: transform_try_frame)
      next
        case df: (Inr df)
        let ?w2 = "to_csv df (csv_local_path k) (snd ?t)"
        let ?u = "upload_object_to_bucket (bucket_name_of k) (csv_local_path k)
                (Some (transformed_object_key k)) ?w2"
        have "blobs (snd ?u) bk = blobs ?w2 bk"
        proof (cases "fst ?u = Inr True")
          case True
          then show ?thesis using assms by (simp add: upload_True_blob)
        next
          case False
          then have "fst ?u = Inr False"
            using upload_returns_bool [of "bucket_name_of k" "csv_local_path k"
                "Some (transformed_object_key k)" ?w2] by auto
          then show ?thesis by (simp add: upload_False_blobs)
        qed
        then show ?thesis
          using transform_returns [OF Inr data df]
          by (simp add: rmtree_def to_csv_def transform_try_frame)
      qed
    qed
  qed
qed

text \<open>A run of \<^verbatim>\<open>transform\<close> in which no call fails.\<close>

lemma transform_no_faults:
  assumes "faults w = []" "bucket_name_of k \<in> buckets w"
    and "blobs w (bucket_name_of k, raw_object_key k) = Some (JsonText data)"
    and "transform_table data = Inr df"
  shows "fst (transform k w) = Inr (bucket_name_of k @ ''/'' @ transformed_object_key k)"
    and "blobs (snd (transform k w)) (bucket_name_of k, transformed_object_key k)
           = Some (CsvText (df_columns df) (df_rows df))"
proof -
  let ?w1 = "w\<lparr>stdout := stdout w @ [PrintLine (''LOCAL PATH: '' @ raw_local_path k)],
                  files := (files w)(raw_local_path k \<mapsto> JsonText data)\<rparr>"
  let ?t = "transform_try (bucket_name_of k) (raw_object_key k) (raw_local_path k) w"
  have t: "?t = (Inr (), ?w1)"
    using assms(1-3) by (rule transform_try_no_faults)
  have j: "json_load_file (raw_local_path k) (snd ?t) = Inr data"
    by (simp add: t json_load_file_def json_loads_def)
  have f: "fst ?t = Inr ()" by (simp add: t)
  note r = transform_returns [OF f j assms(4)]
  show "fst (transform k w) = Inr (bucket_name_of k @ ''/'' @ transformed_object_key k)"
    by (simp add: r)
  let ?w2 = "to_csv df (csv_local_path k) ?w1"
  let ?u = "upload_object_to_bucket (bucket_name_of k) (csv_local_path k)
                (Some (transformed_object_key k)) ?w2"
  have "fst ?u = Inr True"
    using assms(1,2) by (simp add: upload_result to_csv_def fault_at_Nil)
  then have "blobs (snd ?u) (bucket_name_of k, transformed_object_key k)
      = files ?w2 (csv_local_path k)"
    by (simp add: upload_True_blob)
  then show "blobs (snd (transform k w)) (bucket_name_of k, transformed_object_key k)
           = Some (CsvText (df_columns df) (df_rows df))"
    by (simp add: r t rmtree_def to_csv_def)
qed

lemma append_song_empty_artists:
  assumes "entry_artists e = Some (JList [])"
  shows "\<exists>x. append_song acc e = Inl x"
proof -
  from assms obtain t al where f: "field e ''track'' = Some t" "field t ''album'' = Some al"
    "field al ''artists'' = Some (JList [])"
    by (auto simp: entry_artists_def bind_eq_Some_conv)
  have "subscripts e [Name ''track'', Name ''album'', Name ''artists'', Index 0, Name ''name'']
      = Inl IndexError"
    using f by (simp add: subscript_field bindE_def seq_index_def)
  then show ?thesis
    by (simp add: append_song_def bindE_def split: sum.splits)
qed

lemma append_song_IndexError:
  assumes "field e ''track'' = Some t" "field t ''name'' = Some n" "field t ''album'' = Some al"
    "field al ''name'' = Some an" "field al ''artists'' = Some (JList [])"
  shows "append_song acc e = Inl IndexError"
  using assms by (simp add: append_song_def subscript_field bindE_def seq_index_def)

lemma collect_songs_raises:
  assumes "e \<in> set es" "entry_artists e = Some (JList [])"
  shows "\<exists>x. collect_songs es acc = Inl x"
  using assms(1)
proof (induction es arbitrary: acc)
  case Nil
  then show ?case by simp
next
  case (Cons s es)
  show ?case
  proof (cases "append_song acc s")
    case (Inl x)
    then show ?thesis by (simp add: bindE_def)
  next
    case (Inr acc')
    with append_song_empty_artists [OF assms(2), of acc] have "s \<noteq> e" by auto
    with Cons.prems have "e \<in> set es" by simp
    then show ?thesis using Cons.IH [of acc'] Inr by (simp add: bindE_def)
  qed
qed

lemma collect_songs_append:
  "collect_songs (xs @ ys) acc = bindE (collect_songs xs acc) (collect_songs ys)"
  by (induction xs arbitrary: acc) (simp_all add: bindE_def split: sum.splits)

lemma transform_table_raises_on_empty_artists:
  assumes "field data ''items'' = Some (JList entries)" "e \<in> set entries"
    "entry_artists e = Some (JList [])"
  shows "\<exists>x. transform_table data = Inl x"
  using collect_songs_raises [OF assms(2,3), of empty_lists]
  by (auto simp: transform_table_def bindE_def subscript_field [OF assms(1)])

lemma transform_table_IndexError:
  assumes "field data ''items'' = Some (JList (good @ e # rest))"
    and "\<forall>g \<in> set good. entry_row g \<noteq> None"
    and "field e ''track'' = Some t" "field t ''name'' = Some n" "field t ''album'' = Some al"
    "field al ''name'' = Some an" "field al ''artists'' = Some (JList [])"
  shows "transform_table data = Inl IndexError"
  by (simp add: transform_table_def bindE_def subscript_field [OF assms(1)]
      collect_songs_append collect_songs_entries [OF assms(2)]
      append_song_IndexError [OF assms(3-7)])

lemma transform_table_no_items:
  assumes "field data ''items'' = Some (JList [])"
  shows "transform_table data = Inr \<lparr>df_columns = columns, df_rows = []\<rparr>"
  using transform_table_entries [OF assms] by simp

lemma transform_try_result:
  "(\<exists>u. fst (transform_try bucket_name object_key local_path w) = Inr u)
   \<longleftrightarrow> fault_at 0 (faults w) = None \<and> fault_at 1 (faults w) = None \<and> bucket_name \<in> buckets w
       \<and> fault_at 2 (faults w) = None \<and> blobs w (bucket_name, object_key) \<noteq> None"
  by (auto simp: transform_try_defs numeral_2_eq_2 split: option.splits)

lemma sample_names:
  "bucket_name_of ''poc_etl/raw/x.json'' = ''poc_etl''"
  "raw_object_key ''poc_etl/raw/x.json'' = ''raw/x.json''"
  "raw_local_path ''poc_etl/raw/x.json'' = ''/home/airflow/spotify_data/raw/x.json''"
  "transformed_object_key ''poc_etl/raw/x.json'' = ''transformed/x.csv''"
  by (simp_all add: full_object_key_splited_def bucket_name_of_def raw_object_key_def
      raw_local_path_def csv_file_name_def transformed_object_key_def
      str_replace_def str_rsplit1_def str_replace_from.simps)

section \<open>Properties of the derived names\<close>

lemma str_split_nonempty: "str_split sep s \<noteq> []"
  by (induction s) (auto split: list.splits)

lemma str_split_no_sep: "sep \<notin> set s \<Longrightarrow> str_split sep s = [s]"
  by (induction s) auto

lemma str_split_append:
  "sep \<notin> set a \<Longrightarrow> str_split sep (a @ sep # rest) = a # str_split sep rest"
  by (induction a) auto

lemma str_rsplit1_last:
  "sep \<notin> set suf \<Longrightarrow> str_rsplit1 sep (pre @ sep # suf) = [pre, suf]"
proof -
  assume n: "sep \<notin> set suf"
  have t: "takeWhile (\<lambda>c. c \<noteq> sep) (rev suf @ sep # rev pre)
      = rev suf @ takeWhile (\<lambda>c. c \<noteq> sep) (sep # rev pre)"
    by (rule takeWhile_append2) (use n in auto)
  have d: "dropWhile (\<lambda>c. c \<noteq> sep) (rev suf @ sep # rev pre)
      = dropWhile (\<lambda>c. c \<noteq> sep) (sep # rev pre)"
    by (rule dropWhile_append2) (use n in auto)
  show ?thesis
    by (simp add: str_rsplit1_def t d)
qed

lemma locator_split:
  assumes "CHR ''/'' \<notin> set bucket" "CHR ''/'' \<notin> set name"
  shows "full_object_key_splited (bucket @ ''/raw/'' @ name @ ''.json'')
           = [bucket, ''raw'', name @ ''.json'']"
proof -
  have "str_split CHR ''/'' (name @ ''.json'') = [name @ ''.json'']"
    using assms by (intro str_split_no_sep) simp
  moreover have "str_split CHR ''/'' (''raw'' @ CHR ''/'' # name @ ''.json'')
      = ''raw'' # str_split CHR ''/'' (name @ ''.json'')"
    by (rule str_split_append) simp
  moreover have "str_split CHR ''/'' (bucket @ CHR ''/'' # ''raw/'' @ name @ ''.json'')
      = bucket # str_split CHR ''/'' (''raw/'' @ name @ ''.json'')"
    using assms by (intro str_split_append)
  ultimately show ?thesis
    by (simp add: full_object_key_splited_def)
qed

lemma locator_names:
  assumes "CHR ''/'' \<notin> set bucket" "CHR ''/'' \<notin> set name"
  shows "bucket_name_of (bucket @ ''/raw/'' @ name @ ''.json'') = bucket"
    and "raw_local_path (bucket @ ''/raw/'' @ name @ ''.json'')
           = ''/home/airflow/spotify_data/raw/'' @ name @ ''.json''"
    and "csv_file_name (bucket @ ''/raw/'' @ name @ ''.json'') = name @ ''.csv''"
    and "transformed_object_key (bucket @ ''/raw/'' @ name @ ''.json'')
           = ''transformed/'' @ name @ ''.csv''"
proof -
  note s = locator_split [OF assms]
  show "bucket_name_of (bucket @ ''/raw/'' @ name @ ''.json'') = bucket"
    unfolding bucket_name_of_def s by simp
  show "raw_local_path (bucket @ ''/raw/'' @ name @ ''.json'')
           = ''/home/airflow/spotify_data/raw/'' @ name @ ''.json''"
    unfolding raw_local_path_def s by simp
  have r: "str_rsplit1 CHR ''.'' (name @ CHR ''.'' # ''json'') = [name, ''json'']"
    by (rule str_rsplit1_last) simp
  show f: "csv_file_name (bucket @ ''/raw/'' @ name @ ''.json'') = name @ ''.csv''"
    unfolding csv_file_name_def s using r by simp
  show "transformed_object_key (bucket @ ''/raw/'' @ name @ ''.json'')
           = ''transformed/'' @ name @ ''.csv''"
    unfolding transformed_object_key_def f by simp
qed

text \<open>
  The key of the object to fetch (line 120) comes from \<^verbatim>\<open>replace\<close>, which removes
  every occurrence of \<open>bucket/\<close> in the locator, not the leading one alone: with the
  bucket \<open>w\<close> the piece \<open>raw/\<close> of the key loses its end as well.
\<close>

lemma raw_object_key_removes_every_occurrence:
  "raw_object_key ''w/raw/x.json'' = ''rax.json''"
  by (simp add: full_object_key_splited_def bucket_name_of_def raw_object_key_def
      str_replace_def str_replace_from.simps)

section \<open>Facts about the sample run\<close>

lemma sample_world_fields:
  "faults sample_world = []"
  "buckets sample_world = {''poc_etl''}"
  "blobs sample_world (''poc_etl'', ''raw/x.json'') = Some (JsonText sample_document)"
  "blobs sample_world (''poc_etl'', ''transformed/x.csv'') = None"
  by (simp_all add: sample_world_def)

lemma sample_entry_row:
  "entry_row sample_entry = Some sample_cells" "typed_cells sample_cells"
  "entry_row second_entry = Some second_cells" "typed_cells second_cells"
  by (simp_all add: entry_row_def sample_entry_def sample_cells_def second_entry_def
      second_cells_def field_def first_artist_def typed_cells_def is_str_def is_int_def)

lemma sample_table:
  "transform_table sample_document = Inr \<lparr>df_columns = columns, df_rows = [sample_cells]\<rparr>"
proof -
  have f: "field sample_document ''items'' = Some (JList [sample_entry])"
    by (simp add: sample_document_def field_def)
  show ?thesis
    using transform_table_entries [OF f] sample_entry_row by simp
qed

lemma sample_download:
  assumes "faults w = []" "''poc_etl'' \<in> buckets w" "blobs w (''poc_etl'', ''raw/x.json'') = Some c"
  shows "transform_try ''poc_etl'' ''raw/x.json'' ''/home/airflow/spotify_data/raw/x.json'' w
         = (Inr (), w\<lparr>stdout := stdout w @ [PrintLine (''LOCAL PATH: '' @ ''/home/airflow/spotify_data/raw/x.json'')],
                  files := (files w)(''/home/airflow/spotify_data/raw/x.json'' \<mapsto> c)\<rparr>)"
  using assms by (rule transform_try_no_faults)

lemma transformed_world_fields:
  "faults transformed_world = []"
  "bq_project transformed_world = ''demo''"
  "datasets transformed_world = {''demo.Spotify_Data''}"
  "tables transformed_world ''demo.Spotify_Data.recently_played'' = Some [sample_row]"
  "gs_object ''gs://poc_etl/transformed/x.csv'' transformed_world
     = Some (CsvText columns [sample_cells])"
  "csv_reader transformed_world (CsvText columns [sample_cells]) = Inr [sample_row]"
  by (simp_all add: transformed_world_def sample_world_def gs_object_def sample_reader_def
      cells_row_def sample_cells_def sample_row_def str_cell_def int_cell_def)

section \<open>Properties of \<^verbatim>\<open>load\<close>\<close>

lemmas load_try_defs = load_try_def get_table_def query_count_def load_table_from_uri_def
  remove_duplicates_def bindS_def print_def count_rows_def

text \<open>A run of the body of \<^verbatim>\<open>load\<close> in which no call fails.\<close>

lemma load_try_no_faults:
  assumes "faults w = []"
    and "tables w (bq_project w @ ''.'' @ dataset_id @ ''.recently_played'') = Some t"
    and "gs_object (''gs://'' @ csv_object_key) w = Some c"
    and "csv_reader w c = Inr new_rows"
  shows "load_try dataset_id csv_object_key w =
     (Inr (),
      w\<lparr>stdout := stdout w @
           [PrintLine (''OBJECT KEY: '' @ csv_object_key),
            PrintNewRecords (int (length (select_distinct (t @ new_rows))) - int (length t))
              (bq_project w @ ''.'' @ dataset_id @ ''.recently_played'')],
         tables := (tables w)(bq_project w @ ''.'' @ dataset_id @ ''.recently_played''
                       \<mapsto> select_distinct (t @ new_rows))\<rparr>)"
  using assms
  by (simp add: load_try_defs service_call_no_faults gs_object_def Let_def)

lemma load_table_returns_bool:
  "\<exists>b w'. load_table dataset_id csv_object_key w = (Inr b, w')"
  by (auto simp: load_table_def split: prod.splits sum.splits)

lemma load_no_faults:
  assumes "faults w = []" "bq_project w @ ''.Spotify_Data'' \<in> datasets w"
  shows "load csv_object_key w =
     load_table ''Spotify_Data'' csv_object_key
       (print (PrintLine (''O dataset '' @ ''Spotify_Data'' @ '' ja existe!'')) w)"
  using assms
  by (simp add: load_def bigquery_Client_def get_dataset_def bindS_def service_call_no_faults
      Let_def)

lemma load_client_raises:
  "fault_at 0 (faults w) = Some e \<Longrightarrow> load csv_object_key w
     = (Inl (Raised e), w\<lparr>faults := drop 1 (faults w)\<rparr>)"
  by (simp add: load_def bigquery_Client_def service_call_def)

lemma load_dataset_check_raises:
  "fault_at 0 (faults w) = None \<Longrightarrow> fault_at 1 (faults w) = Some e \<Longrightarrow> e \<noteq> NotFound \<Longrightarrow>
   load csv_object_key w = (Inl (Raised e), w\<lparr>faults := drop 2 (faults w)\<rparr>)"
  by (simp add: load_def bigquery_Client_def get_dataset_def bindS_def service_call_def
      numeral_2_eq_2 Let_def)

lemma load_returns_bool:
  assumes "fault_at 0 (faults w) = None"
    and "fault_at 1 (faults w) = None \<or> fault_at 1 (faults w) = Some NotFound"
  shows "\<exists>b. fst (load csv_object_key w) = Inr b"
proof -
  have t: "\<exists>b. fst (load_table d csv_object_key v) = Inr b" for d v
    using load_table_returns_bool [of d csv_object_key v] by auto
  from assms(2) show ?thesis
  proof
    assume "fault_at 1 (faults w) = None"
    with assms(1) show ?thesis
      using t
      by (auto simp: load_def bigquery_Client_def get_dataset_def create_dataset_def bindS_def
          service_call_def Let_def split: option.splits)
  next
    assume "fault_at 1 (faults w) = Some NotFound"
    with assms(1) show ?thesis
      using t
      by (auto simp: load_def bigquery_Client_def get_dataset_def create_dataset_def bindS_def
          service_call_def Let_def split: option.splits)
  qed
qed

lemma count_list_remdups: "count_list (remdups xs) x = (if x \<in> set xs then 1 else 0)"
  by (induction xs) auto

text \<open>A run of \<^verbatim>\<open>load\<close> whose sixth call, the deduplication query, fails.\<close>

lemma load_dedup_fails:
  assumes "fault_at 0 (faults w) = None" "fault_at 1 (faults w) = None"
    "fault_at 2 (faults w) = None" "fault_at 3 (faults w) = None" "fault_at 4 (faults w) = None"
    "fault_at 5 (faults w) = Some e"
    and "bq_project w @ ''.Spotify_Data'' \<in> datasets w"
    and "tables w (bq_project w @ ''.Spotify_Data.recently_played'') = Some t"
    and "gs_object (''gs://'' @ csv_object_key) w = Some c"
    and "csv_reader w c = Inr new_rows"
  shows "fst (load csv_object_key w) = Inr False"
    and "tables (snd (load csv_object_key w)) (bq_project w @ ''.Spotify_Data.recently_played'')
           = Some (t @ new_rows)"
    and "last (stdout (snd (load csv_object_key w))) = PrintExn e"
  using assms
  by (simp_all add: load_def load_table_def load_try_defs bigquery_Client_def get_dataset_def
      service_call_def gs_object_def Let_def eval_nat_numeral)

lemma load_all_ok:
  assumes "faults w = []" "bq_project w @ ''.Spotify_Data'' \<in> datasets w"
    and "tables w (bq_project w @ ''.Spotify_Data.recently_played'') = Some t"
    and "gs_object (''gs://'' @ csv_object_key) w = Some c"
    and "csv_reader w c = Inr new_rows"
  shows "fst (load csv_object_key w) = Inr True"
    and "tables (snd (load csv_object_key w)) (bq_project w @ ''.Spotify_Data.recently_played'')
           = Some (select_distinct (t @ new_rows))"
    and "last (stdout (snd (load csv_object_key w)))
           = PrintNewRecords (int (length (select_distinct (t @ new_rows))) - int (length t))
               (bq_project w @ ''.Spotify_Data.recently_played'')"
proof -
  let ?w = "print (PrintLine (''O dataset '' @ ''Spotify_Data'' @ '' ja existe!'')) w"
  have "load_try ''Spotify_Data'' csv_object_key ?w =
     (Inr (),
      ?w\<lparr>stdout := stdout ?w @
           [PrintLine (''OBJECT KEY: '' @ csv_object_key),
            PrintNewRecords (int (length (select_distinct (t @ new_rows))) - int (length t))
              (bq_project ?w @ ''.'' @ ''Spotify_Data'' @ ''.recently_played'')],
         tables := (tables ?w)(bq_project ?w @ ''.'' @ ''Spotify_Data'' @ ''.recently_played''
                       \<mapsto> select_distinct (t @ new_rows))\<rparr>)"
    using assms by (intro load_try_no_faults) (simp_all add: print_def gs_object_def)
  then have l: "load csv_object_key w = (Inr True,
      ?w\<lparr>stdout := stdout ?w @
           [PrintLine (''OBJECT KEY: '' @ csv_object_key),
            PrintNewRecords (int (length (select_distinct (t @ new_rows))) - int (length t))
              (bq_project ?w @ ''.'' @ ''Spotify_Data'' @ ''.recently_played'')],
         tables := (tables ?w)(bq_project ?w @ ''.'' @ ''Spotify_Data'' @ ''.recently_played''
                       \<mapsto> select_distinct (t @ new_rows))\<rparr>)"
    using load_no_faults [OF assms(1,2), of csv_object_key] by (simp add: load_table_def)
  show "fst (load csv_object_key w) = Inr True"
    by (simp add: l)
  show "tables (snd (load csv_object_key w)) (bq_project w @ ''.Spotify_Data.recently_played'')
           = Some (select_distinct (t @ new_rows))"
    by (simp add: l print_def)
  show "last (stdout (snd (load csv_object_key w)))
           = PrintNewRecords (int (length (select_distinct (t @ new_rows))) - int (length t))
               (bq_project w @ ''.Spotify_Data.recently_played'')"
    by (simp add: l print_def)
qed

text \<open>
  The Boolean of lines 214 to 274: \<^verbatim>\<open>True\<close> when the five calls of the \<^verbatim>\<open>try\<close> all
  succeed, \<^verbatim>\<open>False\<close> when one of them raises.
\<close>

lemma load_table_result:
  "fst (load_table dataset_id csv_object_key w)
     = Inr (fault_at 0 (faults w) = None
            \<and> tables w (bq_project w @ ''.'' @ dataset_id @ ''.recently_played'') \<noteq> None
            \<and> fault_at 1 (faults w) = None \<and> fault_at 2 (faults w) = None
            \<and> (\<exists>c rows. gs_object (''gs://'' @ csv_object_key) w = Some c
                         \<and> csv_reader w c = Inr rows)
            \<and> fault_at 3 (faults w) = None \<and> fault_at 4 (faults w) = None)"
  by (auto simp: load_table_def load_try_defs service_call_def gs_object_def Let_def
      eval_nat_numeral split: option.splits sum.splits)

lemma load_dataset_exists:
  assumes "fault_at 0 (faults w) = None" "fault_at 1 (faults w) = None"
    "bq_project w @ ''.Spotify_Data'' \<in> datasets w"
  shows "load csv_object_key w =
     load_table ''Spotify_Data'' csv_object_key
       (w\<lparr>faults := drop 2 (faults w),
          stdout := stdout w @ [PrintLine (''O dataset '' @ ''Spotify_Data'' @ '' ja existe!'')]\<rparr>)"
  using assms
  by (simp add: load_def bigquery_Client_def get_dataset_def bindS_def service_call_def
      Let_def print_def eval_nat_numeral)

lemma load_dataset_created:
  assumes "fault_at 0 (faults w) = None"
    and "fault_at 1 (faults w) = Some NotFound \<or> fault_at 1 (faults w) = None"
    and "fault_at 2 (faults w) = None"
    and "bq_project w @ ''.Spotify_Data'' \<notin> datasets w"
  shows "load csv_object_key w =
     load_table ''Spotify_Data'' csv_object_key
       (w\<lparr>faults := drop 3 (faults w),
          datasets := insert (bq_project w @ ''.Spotify_Data'') (datasets w),
          stdout := stdout w @ [PrintLine (''Dataset '' @ [CHR 0x27] @ ''Spotify_Data''
                                             @ [CHR 0x27] @ '' criado com sucesso!'')]\<rparr>)"
  using assms
  by (auto simp: load_def bigquery_Client_def get_dataset_def create_dataset_def bindS_def
      service_call_def Let_def print_def eval_nat_numeral)

lemma load_create_fails:
  assumes "fault_at 0 (faults w) = None"
    and "fault_at 1 (faults w) = Some NotFound
         \<or> fault_at 1 (faults w) = None \<and> bq_project w @ ''.Spotify_Data'' \<notin> datasets w"
    and "fault_at 2 (faults w) \<noteq> None \<or> bq_project w @ ''.Spotify_Data'' \<in> datasets w"
  shows "fst (load csv_object_key w) = Inr False"
  using assms
  by (auto simp: load_def bigquery_Client_def get_dataset_def create_dataset_def bindS_def
      service_call_def Let_def print_def eval_nat_numeral split: option.splits)

section \<open>The claims\<close>

text \<open>
  C1. A raw play-history document is a JSON object whose \<open>items\<close> is a list of
  entries, each with a track (name, album with a name and a first artist, duration,
  popularity) and a play timestamp, the names and the timestamp being strings and the
  duration and the popularity integers. For every such document with \<open>N\<close> entries, the
  projection of \<^verbatim>\<open>transform\<close> (lines 151 to 170) returns a data frame with the six
  columns \<open>song_name\<close>, \<open>album_name\<close>, \<open>artist_name\<close>, \<open>duration_ms\<close>,
  \<open>popularity\<close>, \<open>played_at\<close> and exactly \<open>N\<close> rows, and row \<open>i\<close> holds the track
  name, album name, first artist's name, duration, popularity and timestamp of entry
  \<open>i\<close>.
\<close>

theorem transform_rows_follow_entries:
  assumes "field data ''items'' = Some (JList entries)"
    and "\<forall>e \<in> set entries. \<exists>r. entry_row e = Some r \<and> typed_cells r"
  shows "\<exists>rows.
     transform_table data =
       Inr \<lparr>df_columns = [''song_name'', ''album_name'', ''artist_name'', ''duration_ms'',
                          ''popularity'', ''played_at''],
            df_rows = rows\<rparr>
     \<and> length rows = length entries
     \<and> (\<forall>i < length entries. entry_row (entries ! i) = Some (rows ! i)
                               \<and> length (rows ! i) = 6)"
proof -
  let ?rows = "map (\<lambda>e. the (entry_row e)) entries"
  have "transform_table data =
       Inr \<lparr>df_columns = [''song_name'', ''album_name'', ''artist_name'', ''duration_ms'',
                          ''popularity'', ''played_at''],
            df_rows = ?rows\<rparr>"
    using transform_table_entries [OF assms] by (simp add: columns_def)
  moreover have "length ?rows = length entries"
    by simp
  moreover have "\<forall>i < length entries. entry_row (entries ! i) = Some (?rows ! i)
                               \<and> length (?rows ! i) = 6"
  proof (intro allI impI)
    fix i assume i: "i < length entries"
    with assms(2) obtain r where r: "entry_row (entries ! i) = Some r"
      by (metis nth_mem)
    have "length r = 6"
      using r by (rule entry_row_length)
    with r i show "entry_row (entries ! i) = Some (?rows ! i) \<and> length (?rows ! i) = 6"
      by simp
  qed
  ultimately show ?thesis by blast
qed

theorem transform_rows_follow_entries_witness:
  "field (JObj [(''items'', JList [sample_entry, second_entry])]) ''items''
     = Some (JList [sample_entry, second_entry])
   \<and> entry_row sample_entry = Some sample_cells \<and> typed_cells sample_cells
   \<and> entry_row second_entry = Some second_cells \<and> typed_cells second_cells
   \<and> transform_table (JObj [(''items'', JList [sample_entry, second_entry])])
       = Inr \<lparr>df_columns = columns, df_rows = [sample_cells, second_cells]\<rparr>"
proof -
  let ?d = "JObj [(''items'', JList [sample_entry, second_entry])]"
  have f: "field ?d ''items'' = Some (JList [sample_entry, second_entry])"
    by (simp add: field_def)
  have a: "\<forall>e \<in> set [sample_entry, second_entry]. \<exists>r. entry_row e = Some r \<and> typed_cells r"
    using sample_entry_row by simp
  from transform_rows_follow_entries [OF f a] obtain rows where
    t: "transform_table ?d = Inr \<lparr>df_columns = columns, df_rows = rows\<rparr>"
    and l: "length rows = length [sample_entry, second_entry]"
    and r: "\<forall>i < length [sample_entry, second_entry].
              entry_row ([sample_entry, second_entry] ! i) = Some (rows ! i)
              \<and> length (rows ! i) = 6"
    unfolding columns_def by blast
  from r [rule_format, of 0] have "entry_row sample_entry = Some (rows ! 0)"
    by simp
  moreover from r [rule_format, of 1] have "entry_row second_entry = Some (rows ! 1)"
    by simp
  ultimately have "rows ! 0 = sample_cells" "rows ! 1 = second_cells"
    using sample_entry_row by simp_all
  with l have "rows = [sample_cells, second_cells]"
    by (cases rows; cases "tl rows") auto
  with f t sample_entry_row show ?thesis by simp
qed

text \<open>
  C2. The deduplication rewrite replaces the table with the distinct projection of its
  own rows. Applying it twice gives the table, and the row count, that applying it once
  gives, and it leaves a table that has no duplicate rows as it is. This holds for the
  rows of the table and for the query run twice on the warehouse.
\<close>

theorem dedup_idempotent:
  "select_distinct (select_distinct t) = select_distinct t
   \<and> length (select_distinct (select_distinct t)) = length (select_distinct t)
   \<and> (distinct t \<longrightarrow> select_distinct t = t)
   \<and> (faults w = [] \<and> tables w table_id = Some t \<longrightarrow>
        snd (remove_duplicates table_id (snd (remove_duplicates table_id w)))
          = snd (remove_duplicates table_id w)
        \<and> tables (snd (remove_duplicates table_id w)) table_id = Some (select_distinct t))"
  by (simp add: select_distinct_def remdups_remdups remove_duplicates_def bindS_def
      service_call_no_faults)

theorem dedup_idempotent_witness:
  "distinct [sample_row]
   \<and> select_distinct (select_distinct [sample_row, sample_row]) = [sample_row]
   \<and> select_distinct [sample_row, sample_row] = [sample_row]
   \<and> select_distinct [sample_row] = [sample_row]"
  using dedup_idempotent [of "[sample_row, sample_row]" sample_world
      "''demo.Spotify_Data.recently_played''"]
    dedup_idempotent [of "[sample_row]" sample_world "''demo.Spotify_Data.recently_played''"]
  by (simp add: select_distinct_def)

text \<open>
  C3, as the code has it. Take a table that holds a row, a file from which the load job
  reads exactly that row, and a run of \<^verbatim>\<open>load\<close> in which no call fails. Then
  \<^verbatim>\<open>load\<close> returns \<^verbatim>\<open>True\<close> and the table holds one copy of the row. The count it
  prints is the number of distinct rows of the table before the load minus the number of
  its rows: that is 0 when the table had no duplicate rows before the load.
\<close>

theorem load_same_row_once:
  assumes "faults w = []"
    and "bq_project w @ ''.Spotify_Data'' \<in> datasets w"
    and "tables w (bq_project w @ ''.Spotify_Data.recently_played'') = Some t"
    and "r \<in> set t"
    and "gs_object (''gs://'' @ csv_object_key) w = Some c"
    and "csv_reader w c = Inr [r]"
  shows "fst (load csv_object_key w) = Inr True
     \<and> (\<exists>t'. tables (snd (load csv_object_key w)) (bq_project w @ ''.Spotify_Data.recently_played'')
               = Some t' \<and> count_list t' r = 1)
     \<and> last (stdout (snd (load csv_object_key w)))
         = PrintNewRecords (int (length (select_distinct t)) - int (length t))
             (bq_project w @ ''.Spotify_Data.recently_played'')
     \<and> (distinct t \<longrightarrow>
          last (stdout (snd (load csv_object_key w)))
            = PrintNewRecords 0 (bq_project w @ ''.Spotify_Data.recently_played''))"
proof -
  note l = load_all_ok [OF assms(1,2,3,5,6)]
  have s: "set (t @ [r]) = set t"
    using assms(4) by auto
  have n: "length (select_distinct (t @ [r])) = length (select_distinct t)"
    unfolding select_distinct_def length_remdups_card_conv s ..
  have c: "count_list (select_distinct (t @ [r])) r = 1"
    by (simp add: select_distinct_def count_list_remdups)
  have d: "int (length (select_distinct t)) - int (length t) = 0" if "distinct t"
    using that by (simp add: select_distinct_def distinct_remdups_id)
  from l c n d show ?thesis by simp
qed

theorem load_same_row_once_witness:
  "fst (load ''poc_etl/transformed/x.csv'' transformed_world) = Inr True
   \<and> last (stdout (snd (load ''poc_etl/transformed/x.csv'' transformed_world)))
       = PrintNewRecords 0 ''demo.Spotify_Data.recently_played''"
proof -
  have h: "faults transformed_world = []"
    "bq_project transformed_world @ ''.Spotify_Data'' \<in> datasets transformed_world"
    "tables transformed_world (bq_project transformed_world @ ''.Spotify_Data.recently_played'')
       = Some [sample_row]"
    "sample_row \<in> set [sample_row]"
    "gs_object (''gs://'' @ ''poc_etl/transformed/x.csv'') transformed_world
       = Some (CsvText columns [sample_cells])"
    "csv_reader transformed_world (CsvText columns [sample_cells]) = Inr [sample_row]"
    using transformed_world_fields by simp_all
  note t = load_same_row_once [OF h]
  from t [THEN conjunct1] t [THEN conjunct2, THEN conjunct2, THEN conjunct2]
  show ?thesis
    by (simp add: transformed_world_fields)
qed

text \<open>
  The claim as stated fails for a table that holds the row twice before the load (what
  a run that failed between the load job and the deduplication leaves): three copies
  are deduplicated to one, and the printed count is 1 - 2 = -1, not 0.
\<close>

theorem load_same_row_reports_negative:
  "sample_row \<in> set [sample_row, sample_row]
   \<and> fst (load ''poc_etl/transformed/x.csv''
            (transformed_world\<lparr>tables := (\<lambda>table_id. Some [sample_row, sample_row])\<rparr>)) = Inr True
   \<and> tables (snd (load ''poc_etl/transformed/x.csv''
            (transformed_world\<lparr>tables := (\<lambda>table_id. Some [sample_row, sample_row])\<rparr>)))
        ''demo.Spotify_Data.recently_played'' = Some [sample_row]
   \<and> last (stdout (snd (load ''poc_etl/transformed/x.csv''
            (transformed_world\<lparr>tables := (\<lambda>table_id. Some [sample_row, sample_row])\<rparr>))))
       = PrintNewRecords (- 1) ''demo.Spotify_Data.recently_played''"
proof -
  let ?w = "transformed_world\<lparr>tables := (\<lambda>table_id. Some [sample_row, sample_row])\<rparr>"
  have h: "faults ?w = []"
    "bq_project ?w @ ''.Spotify_Data'' \<in> datasets ?w"
    "tables ?w (bq_project ?w @ ''.Spotify_Data.recently_played'') = Some [sample_row, sample_row]"
    "gs_object (''gs://'' @ ''poc_etl/transformed/x.csv'') ?w = Some (CsvText columns [sample_cells])"
    "csv_reader ?w (CsvText columns [sample_cells]) = Inr [sample_row]"
    using transformed_world_fields by (simp_all add: gs_object_def)
  note l = load_all_ok [OF h]
  from l show ?thesis
    by (simp add: transformed_world_fields select_distinct_def)
qed

text \<open>
  C4. For a locator \<open>bucket/raw/name.json\<close>, where neither the bucket nor the name
  holds a slash, \<^verbatim>\<open>transform\<close> keeps the base name \<open>name.json\<close> for the local file,
  takes \<open>transformed/name.csv\<close> as the key of the upload, and returns
  \<open>bucket/transformed/name.csv\<close> whenever it returns. No object of the storage other
  than the one under that key is changed by the run, and when no call fails that object
  holds the delimited text of the data frame.
\<close>

theorem transform_locator_names:
  assumes "CHR ''/'' \<notin> set bucket" and "CHR ''/'' \<notin> set name"
  shows "last (full_object_key_splited (bucket @ ''/raw/'' @ name @ ''.json'')) = name @ ''.json''
     \<and> raw_local_path (bucket @ ''/raw/'' @ name @ ''.json'')
         = ''/home/airflow/spotify_data/raw/'' @ name @ ''.json''
     \<and> transformed_object_key (bucket @ ''/raw/'' @ name @ ''.json'')
         = ''transformed/'' @ name @ ''.csv''
     \<and> (\<forall>r. fst (transform (bucket @ ''/raw/'' @ name @ ''.json'') w) = Inr r \<longrightarrow>
              r = bucket @ ''/transformed/'' @ name @ ''.csv'')
     \<and> (\<forall>bk. bk \<noteq> (bucket, ''transformed/'' @ name @ ''.csv'') \<longrightarrow>
              blobs (snd (transform (bucket @ ''/raw/'' @ name @ ''.json'') w)) bk = blobs w bk)
     \<and> (faults w = [] \<and> bucket \<in> buckets w
          \<and> blobs w (bucket, raw_object_key (bucket @ ''/raw/'' @ name @ ''.json''))
              = Some (JsonText data)
          \<and> transform_table data = Inr df \<longrightarrow>
          fst (transform (bucket @ ''/raw/'' @ name @ ''.json'') w)
            = Inr (bucket @ ''/transformed/'' @ name @ ''.csv'')
          \<and> blobs (snd (transform (bucket @ ''/raw/'' @ name @ ''.json'') w))
                (bucket, ''transformed/'' @ name @ ''.csv'')
              = Some (CsvText (df_columns df) (df_rows df)))"
proof -
  let ?k = "bucket @ ''/raw/'' @ name @ ''.json''"
  note n = locator_names [OF assms]
  have 1: "last (full_object_key_splited ?k) = name @ ''.json''"
    unfolding locator_split [OF assms] by simp
  have 4: "\<forall>r. fst (transform ?k w) = Inr r \<longrightarrow> r = bucket @ ''/transformed/'' @ name @ ''.csv''"
    using transform_result_locator [of ?k w] unfolding n by simp
  have 5: "\<forall>bk. bk \<noteq> (bucket, ''transformed/'' @ name @ ''.csv'') \<longrightarrow>
              blobs (snd (transform ?k w)) bk = blobs w bk"
    using transform_blobs_frame [of _ ?k w] unfolding n by blast
  have 6: "fst (transform ?k w) = Inr (bucket @ ''/transformed/'' @ name @ ''.csv'')
          \<and> blobs (snd (transform ?k w)) (bucket, ''transformed/'' @ name @ ''.csv'')
              = Some (CsvText (df_columns df) (df_rows df))"
    if "faults w = []" "bucket \<in> buckets w"
      "blobs w (bucket, raw_object_key ?k) = Some (JsonText data)" "transform_table data = Inr df"
    using transform_no_faults [of w ?k data df] that unfolding n by simp
  from 1 n(2) n(4) 4 5 6 show ?thesis by blast
qed

theorem transform_locator_names_witness:
  "CHR ''/'' \<notin> set ''poc_etl'' \<and> CHR ''/'' \<notin> set ''x''
   \<and> raw_local_path ''poc_etl/raw/x.json'' = ''/home/airflow/spotify_data/raw/x.json''
   \<and> transformed_object_key ''poc_etl/raw/x.json'' = ''transformed/x.csv''
   \<and> fst (transform ''poc_etl/raw/x.json'' sample_world) = Inr ''poc_etl/transformed/x.csv''
   \<and> blobs (snd (transform ''poc_etl/raw/x.json'' sample_world)) (''poc_etl'', ''transformed/x.csv'')
       = Some (CsvText columns [sample_cells])"
proof -
  have a: "CHR ''/'' \<notin> set ''poc_etl''" "CHR ''/'' \<notin> set ''x''"
    by simp_all
  have h: "faults sample_world = [] \<and> ''poc_etl'' \<in> buckets sample_world
     \<and> blobs sample_world (''poc_etl'', raw_object_key (''poc_etl'' @ ''/raw/'' @ ''x'' @ ''.json''))
         = Some (JsonText sample_document)
     \<and> transform_table sample_document = Inr \<lparr>df_columns = columns, df_rows = [sample_cells]\<rparr>"
    by (simp add: sample_world_fields sample_names sample_table)
  note t = transform_locator_names [OF a, of sample_world sample_document
        "\<lparr>df_columns = columns, df_rows = [sample_cells]\<rparr>"]
  note t2 = t [THEN conjunct2, THEN conjunct1]
  note t3 = t [THEN conjunct2, THEN conjunct2, THEN conjunct1]
  note t6 = t [THEN conjunct2, THEN conjunct2, THEN conjunct2, THEN conjunct2, THEN conjunct2,
      rule_format, OF h]
  show ?thesis
    using t2 t3 t6 by simp
qed

text \<open>
  C5, as the code has it. Every exception raised in the \<^verbatim>\<open>try\<close> of \<^verbatim>\<open>transform\<close>
  (making the client, getting the bucket, downloading the object) is caught, printed and
  answered with \<^verbatim>\<open>exit()\<close>: the step ends with \<^verbatim>\<open>SystemExit\<close> exactly when one of
  these calls fails, the bucket is missing or the object is missing. Reading and
  decoding the downloaded file happens after the \<^verbatim>\<open>try\<close>: an exception raised there
  is not caught and leaves \<^verbatim>\<open>transform\<close> as it is. There is no Boolean result: when
  the download, the decoding and the projection succeed, \<^verbatim>\<open>transform\<close> returns the
  locator, whatever becomes of the upload.
\<close>

theorem transform_download_exits_parse_propagates:
  "(fst (transform_try (bucket_name_of k) (raw_object_key k) (raw_local_path k) w) = Inl e \<longrightarrow>
      transform k w =
        (Inl SystemExit,
         print (PrintExn e)
           (snd (transform_try (bucket_name_of k) (raw_object_key k) (raw_local_path k) w))))
   \<and> ((\<exists>x. fst (transform_try (bucket_name_of k) (raw_object_key k) (raw_local_path k) w) = Inl x)
        \<longleftrightarrow> \<not> (fault_at 0 (faults w) = None \<and> fault_at 1 (faults w) = None
                 \<and> bucket_name_of k \<in> buckets w \<and> fault_at 2 (faults w) = None
                 \<and> blobs w (bucket_name_of k, raw_object_key k) \<noteq> None))
   \<and> (fst (transform_try (bucket_name_of k) (raw_object_key k) (raw_local_path k) w) = Inr ()
        \<and> json_load_file (raw_local_path k)
             (snd (transform_try (bucket_name_of k) (raw_object_key k) (raw_local_path k) w))
            = Inl e \<longrightarrow>
      fst (transform k w) = Inl (Raised e))
   \<and> (fst (transform_try (bucket_name_of k) (raw_object_key k) (raw_local_path k) w) = Inr ()
        \<and> json_load_file (raw_local_path k)
             (snd (transform_try (bucket_name_of k) (raw_object_key k) (raw_local_path k) w))
            = Inr data
        \<and> transform_table data = Inr df \<longrightarrow>
      fst (transform k w) = Inr (bucket_name_of k @ ''/'' @ transformed_object_key k))"
proof -
  let ?t = "transform_try (bucket_name_of k) (raw_object_key k) (raw_local_path k) w"
  have 1: "fst ?t = Inl e \<longrightarrow> transform k w = (Inl SystemExit, print (PrintExn e) (snd ?t))"
    using transform_exit [of k w e] by blast
  have 2: "(\<exists>x. fst ?t = Inl x)
        \<longleftrightarrow> \<not> (fault_at 0 (faults w) = None \<and> fault_at 1 (faults w) = None
                 \<and> bucket_name_of k \<in> buckets w \<and> fault_at 2 (faults w) = None
                 \<and> blobs w (bucket_name_of k, raw_object_key k) \<noteq> None)"
    using transform_try_result [of "bucket_name_of k" "raw_object_key k" "raw_local_path k" w]
    by (cases "fst ?t") auto
  have 3: "fst ?t = Inr () \<and> json_load_file (raw_local_path k) (snd ?t) = Inl e \<longrightarrow>
      fst (transform k w) = Inl (Raised e)"
    using transform_parse_raises [of k w "()" e] by simp
  have 4: "fst ?t = Inr () \<and> json_load_file (raw_local_path k) (snd ?t) = Inr data
        \<and> transform_table data = Inr df \<longrightarrow>
      fst (transform k w) = Inr (bucket_name_of k @ ''/'' @ transformed_object_key k)"
    using transform_returns [of k w "()" data df] by simp
  from 1 2 3 4 show ?thesis by blast
qed

theorem transform_download_exits_parse_propagates_witness:
  "fst (transform ''poc_etl/raw/x.json'' (sample_world\<lparr>buckets := {}\<rparr>)) = Inl SystemExit
   \<and> fst (transform ''poc_etl/raw/x.json''
            (sample_world\<lparr>blobs := (\<lambda>bk. Some (PlainText ''<html>''))\<rparr>))
       = Inl (Raised JSONDecodeError)
   \<and> fst (transform ''poc_etl/raw/x.json'' (sample_world\<lparr>faults := [None, None, None, Some Forbidden]\<rparr>))
       = Inr ''poc_etl/transformed/x.csv''"
proof -
  let ?k = "''poc_etl/raw/x.json''"
  let ?w1 = "sample_world\<lparr>buckets := {}\<rparr>"
  let ?w2 = "sample_world\<lparr>blobs := (\<lambda>bk. Some (PlainText ''<html>''))\<rparr>"
  let ?w3 = "sample_world\<lparr>faults := [None, None, None, Some Forbidden]\<rparr>"
  note a = transform_download_exits_parse_propagates
  have "\<exists>x. fst (transform_try (bucket_name_of ?k) (raw_object_key ?k) (raw_local_path ?k) ?w1) = Inl x"
    using a [of ?k ?w1, THEN conjunct2, THEN conjunct1] by simp
  then have 1: "fst (transform ?k ?w1) = Inl SystemExit"
    using a [of ?k ?w1, THEN conjunct1] by auto
  have d2: "transform_try ''poc_etl'' ''raw/x.json'' ''/home/airflow/spotify_data/raw/x.json'' ?w2
         = (Inr (), ?w2\<lparr>stdout := stdout ?w2 @ [PrintLine (''LOCAL PATH: '' @ ''/home/airflow/spotify_data/raw/x.json'')],
                  files := (files ?w2)(''/home/airflow/spotify_data/raw/x.json'' \<mapsto> PlainText ''<html>'')\<rparr>)"
    by (rule sample_download) (simp_all add: sample_world_fields)
  have 2: "fst (transform ?k ?w2) = Inl (Raised JSONDecodeError)"
    using a [of ?k ?w2 JSONDecodeError, THEN conjunct2, THEN conjunct2, THEN conjunct1]
    by (simp add: d2 sample_names json_load_file_def json_loads_def)
  have d3: "transform_try ''poc_etl'' ''raw/x.json'' ''/home/airflow/spotify_data/raw/x.json'' ?w3
         = (Inr (), ?w3\<lparr>faults := [Some Forbidden], stdout := stdout ?w3 @ [PrintLine (''LOCAL PATH: '' @ ''/home/airflow/spotify_data/raw/x.json'')],
                  files := (files ?w3)(''/home/airflow/spotify_data/raw/x.json'' \<mapsto> JsonText sample_document)\<rparr>)"
    by (simp add: transform_try_defs fault_at_def sample_world_fields)
  have 3: "fst (transform ?k ?w3) = Inr ''poc_etl/transformed/x.csv''"
    using a [of ?k ?w3 _ sample_document "\<lparr>df_columns = columns, df_rows = [sample_cells]\<rparr>",
        THEN conjunct2, THEN conjunct2, THEN conjunct2]
    by (simp add: d3 sample_names json_load_file_def json_loads_def sample_table)
  from 1 2 3 show ?thesis by simp
qed

text \<open>
  The claim as stated fails: the object under \<open>raw/x.json\<close> is fetched without an
  error but is not JSON; decoding it raises \<^verbatim>\<open>JSONDecodeError\<close> after the \<^verbatim>\<open>try\<close>,
  which nothing in \<^verbatim>\<open>transform\<close> catches, and the step ends with that exception, not
  with the \<^verbatim>\<open>exit()\<close> of the handler.
\<close>

theorem transform_parse_not_caught:
  "fst (transform ''poc_etl/raw/x.json''
          (sample_world\<lparr>blobs := (\<lambda>bk. Some (PlainText ''<html>''))\<rparr>))
     = Inl (Raised JSONDecodeError)
   \<and> fst (transform ''poc_etl/raw/x.json''
          (sample_world\<lparr>blobs := (\<lambda>bk. Some (PlainText ''<html>''))\<rparr>))
     \<noteq> Inl SystemExit"
proof -
  let ?k = "''poc_etl/raw/x.json''"
  let ?w2 = "sample_world\<lparr>blobs := (\<lambda>bk. Some (PlainText ''<html>''))\<rparr>"
  have d2: "transform_try ''poc_etl'' ''raw/x.json'' ''/home/airflow/spotify_data/raw/x.json'' ?w2
         = (Inr (), ?w2\<lparr>stdout := stdout ?w2 @ [PrintLine (''LOCAL PATH: '' @ ''/home/airflow/spotify_data/raw/x.json'')],
                  files := (files ?w2)(''/home/airflow/spotify_data/raw/x.json'' \<mapsto> PlainText ''<html>'')\<rparr>)"
    by (rule sample_download) (simp_all add: sample_world_fields)
  have "transform ?k ?w2 = (Inl (Raised JSONDecodeError),
      snd (transform_try (bucket_name_of ?k) (raw_object_key ?k) (raw_local_path ?k) ?w2))"
    by (rule transform_parse_raises [where u = "()"])
      (simp_all add: d2 sample_names json_load_file_def json_loads_def)
  then show ?thesis by simp
qed

text \<open>
  C6, as the code has it. Every exception raised by a call of the \<^verbatim>\<open>try\<close> of lines
  214 to 269 (table lookup, counts, load job, deduplication) or by creating the dataset
  is caught and \<^verbatim>\<open>load\<close> returns a Boolean: this is so whenever the client is made
  and the dataset check passes or raises \<^verbatim>\<open>NotFound\<close>. Nothing is rolled back: when the
  deduplication query fails after the load job, \<^verbatim>\<open>load\<close> returns \<^verbatim>\<open>False\<close> and the
  table keeps its rows followed by the loaded ones, duplicates included.
\<close>

theorem load_failure_is_False_without_rollback:
  "(\<exists>b w'. load_table dataset_id csv_object_key w = (Inr b, w'))
   \<and> (fault_at 0 (faults w) = None
        \<and> (fault_at 1 (faults w) = None \<or> fault_at 1 (faults w) = Some NotFound) \<longrightarrow>
        (\<exists>b. fst (load csv_object_key w) = Inr b))
   \<and> (fault_at 0 (faults w) = None \<and> fault_at 1 (faults w) = None
        \<and> fault_at 2 (faults w) = None \<and> fault_at 3 (faults w) = None
        \<and> fault_at 4 (faults w) = None \<and> fault_at 5 (faults w) = Some e
        \<and> bq_project w @ ''.Spotify_Data'' \<in> datasets w
        \<and> tables w (bq_project w @ ''.Spotify_Data.recently_played'') = Some t
        \<and> gs_object (''gs://'' @ csv_object_key) w = Some c
        \<and> csv_reader w c = Inr new_rows \<longrightarrow>
        fst (load csv_object_key w) = Inr False
        \<and> tables (snd (load csv_object_key w)) (bq_project w @ ''.Spotify_Data.recently_played'')
            = Some (t @ new_rows))"
  using load_table_returns_bool [of dataset_id csv_object_key w]
    load_returns_bool [of w csv_object_key]
    load_dedup_fails(1,2) [of w e t csv_object_key c new_rows]
  by blast

theorem load_failure_is_False_without_rollback_witness:
  "fst (load ''poc_etl/transformed/x.csv''
          (transformed_world\<lparr>faults := [None, None, None, None, None, Some BadRequest]\<rparr>))
     = Inr False
   \<and> tables (snd (load ''poc_etl/transformed/x.csv''
          (transformed_world\<lparr>faults := [None, None, None, None, None, Some BadRequest]\<rparr>)))
       ''demo.Spotify_Data.recently_played'' = Some [sample_row, sample_row]"
proof -
  let ?w = "transformed_world\<lparr>faults := [None, None, None, None, None, Some BadRequest]\<rparr>"
  have h: "fault_at 0 (faults ?w) = None \<and> fault_at 1 (faults ?w) = None
        \<and> fault_at 2 (faults ?w) = None \<and> fault_at 3 (faults ?w) = None
        \<and> fault_at 4 (faults ?w) = None \<and> fault_at 5 (faults ?w) = Some BadRequest
        \<and> bq_project ?w @ ''.Spotify_Data'' \<in> datasets ?w
        \<and> tables ?w (bq_project ?w @ ''.Spotify_Data.recently_played'') = Some [sample_row]
        \<and> gs_object (''gs://'' @ ''poc_etl/transformed/x.csv'') ?w
            = Some (CsvText columns [sample_cells])
        \<and> csv_reader ?w (CsvText columns [sample_cells]) = Inr [sample_row]"
    using transformed_world_fields by (simp add: gs_object_def fault_at_def)
  note t = load_failure_is_False_without_rollback [of "''Spotify_Data''"
      "''poc_etl/transformed/x.csv''" ?w BadRequest "[sample_row]"
      "CsvText columns [sample_cells]" "[sample_row]",
      THEN conjunct2, THEN conjunct2, rule_format, OF h]
  from t show ?thesis
    by (simp add: transformed_world_fields)
qed

text \<open>
  The claim as stated fails: the dataset check of line 203 stands under
  \<^verbatim>\<open>except NotFound\<close> alone. When it raises another exception of the warehouse
  client, here \<^verbatim>\<open>Forbidden\<close>, the exception leaves \<^verbatim>\<open>load\<close> and no Boolean is
  returned; the same holds when making the client (line 198) raises.
\<close>

theorem load_dataset_check_propagates:
  "fst (load ''poc_etl/transformed/x.csv'' (transformed_world\<lparr>faults := [None, Some Forbidden]\<rparr>))
     = Inl (Raised Forbidden)
   \<and> fst (load ''poc_etl/transformed/x.csv'' (transformed_world\<lparr>faults := [Some Forbidden]\<rparr>))
     = Inl (Raised Forbidden)"
proof -
  have 1: "load ''poc_etl/transformed/x.csv'' (transformed_world\<lparr>faults := [None, Some Forbidden]\<rparr>)
     = (Inl (Raised Forbidden), transformed_world\<lparr>faults := [None, Some Forbidden]\<rparr>
           \<lparr>faults := drop 2 (faults (transformed_world\<lparr>faults := [None, Some Forbidden]\<rparr>))\<rparr>)"
    by (rule load_dataset_check_raises) (simp_all add: fault_at_def)
  have 2: "load ''poc_etl/transformed/x.csv'' (transformed_world\<lparr>faults := [Some Forbidden]\<rparr>)
     = (Inl (Raised Forbidden), transformed_world\<lparr>faults := [Some Forbidden]\<rparr>
           \<lparr>faults := drop 1 (faults (transformed_world\<lparr>faults := [Some Forbidden]\<rparr>))\<rparr>)"
    by (rule load_client_raises) (simp_all add: fault_at_def)
  from 1 2 show ?thesis by simp
qed

text \<open>
  C7. \<^verbatim>\<open>upload_object_to_bucket\<close> never raises: it returns \<^verbatim>\<open>True\<close> when none of its
  three calls fails (making the client, getting the bucket, which must exist, and
  sending the file, which must exist) and \<^verbatim>\<open>False\<close> in every other case. When it
  returns \<^verbatim>\<open>True\<close> the object is stored under its key; when it returns \<^verbatim>\<open>False\<close>
  the storage is as before, and in both cases it has made at most three calls, so a
  failed upload is not tried again. In \<^verbatim>\<open>extract_spotify_data\<close> an exception of the
  request, or of decoding its answer, is not handled and leaves the function; the status
  of the answer is not looked at, and an answer that is a JSON object without \<open>items\<close>
  (an error report) makes the projection of the next step raise \<^verbatim>\<open>KeyError\<close>.
\<close>

theorem upload_failure_is_False:
  "fst (upload_object_to_bucket bucket_name object_path object_key w)
     = Inr (fault_at 0 (faults w) = None \<and> fault_at 1 (faults w) = None \<and> bucket_name \<in> buckets w
            \<and> files w object_path \<noteq> None \<and> fault_at 2 (faults w) = None)
   \<and> (fst (upload_object_to_bucket bucket_name object_path object_key w) = Inr True \<longrightarrow>
        blobs (snd (upload_object_to_bucket bucket_name object_path object_key w))
          (bucket_name, case object_key of None \<Rightarrow> object_path | Some k \<Rightarrow> k)
          = files w object_path)
   \<and> (fst (upload_object_to_bucket bucket_name object_path object_key w) = Inr False \<longrightarrow>
        blobs (snd (upload_object_to_bucket bucket_name object_path object_key w)) = blobs w)
   \<and> (\<exists>n \<le> 3. faults (snd (upload_object_to_bucket bucket_name object_path object_key w))
                  = drop n (faults w))
   \<and> (fault_at 0 (faults w) = Some e \<longrightarrow>
        fst (extract_spotify_data secret bucket_name w) = Inl (Raised e))
   \<and> (fault_at 0 (faults w) = None
        \<and> json_loads (http_get w (api_url (clock_yesterday w * 1000)) (api_headers secret)) = Inl e
        \<longrightarrow> fst (extract_spotify_data secret bucket_name w) = Inl (Raised e))
   \<and> (map_of kvs ''items'' = None \<longrightarrow>
        transform_table (JObj kvs) = Inl (KeyError (Name ''items'')))"
  using upload_result [of bucket_name object_path object_key w]
    upload_True_blob [of bucket_name object_path object_key w]
    upload_False_blobs [of bucket_name object_path object_key w]
    upload_faults [of bucket_name object_path object_key w]
    extract_request_fault [of w e secret bucket_name]
    extract_bad_answer [of w secret e bucket_name]
  by (simp add: transform_table_def bindE_def)

theorem upload_failure_is_False_witness:
  "fst (upload_object_to_bucket ''poc_etl'' ''/tmp/x.json'' (Some ''raw/x.json'')
          (sample_world\<lparr>files := (files sample_world)(''/tmp/x.json'' \<mapsto> PlainText ''{}'')\<rparr>))
     = Inr True
   \<and> fst (upload_object_to_bucket ''poc_etl'' ''/tmp/x.json'' (Some ''raw/x.json'')
          (sample_world\<lparr>faults := [None, None, Some ConnectionError],
                         files := (files sample_world)(''/tmp/x.json'' \<mapsto> PlainText ''{}'')\<rparr>))
     = Inr False
   \<and> fst (upload_object_to_bucket ''poc_etl'' ''/tmp/x.json'' (Some ''raw/x.json'') sample_world)
     = Inr False
   \<and> fst (extract_spotify_data ''token'' ''poc_etl''
            (sample_world\<lparr>faults := [Some ConnectionError]\<rparr>))
     = Inl (Raised ConnectionError)"
  using upload_failure_is_False [of "''poc_etl''" "''/tmp/x.json''" "Some ''raw/x.json''"
      "sample_world\<lparr>files := (files sample_world)(''/tmp/x.json'' \<mapsto> PlainText ''{}'')\<rparr>"]
    upload_failure_is_False [of "''poc_etl''" "''/tmp/x.json''" "Some ''raw/x.json''"
      "sample_world\<lparr>faults := [None, None, Some ConnectionError],
                         files := (files sample_world)(''/tmp/x.json'' \<mapsto> PlainText ''{}'')\<rparr>"]
    upload_failure_is_False [of "''poc_etl''" "''/tmp/x.json''" "Some ''raw/x.json''" sample_world]
    upload_failure_is_False [of "''poc_etl''" "''/tmp/x.json''" "Some ''raw/x.json''"
      "sample_world\<lparr>faults := [Some ConnectionError]\<rparr>" ConnectionError "''token''"]
  by (simp add: sample_world_def fault_at_def)

text \<open>
  C8. When the \<open>items\<close> of the raw document is the empty list, \<^verbatim>\<open>transform\<close> does
  not reject it: the data frame has the six columns and no row, the file written from
  it holds the header alone, and a run in which no call fails returns the locator and
  leaves that header-only text in the bucket.
\<close>

theorem transform_empty_items:
  assumes "field data ''items'' = Some (JList [])"
  shows "transform_table data =
           Inr \<lparr>df_columns = [''song_name'', ''album_name'', ''artist_name'', ''duration_ms'',
                               ''popularity'', ''played_at''],
                df_rows = []\<rparr>
     \<and> files (to_csv \<lparr>df_columns = columns, df_rows = []\<rparr> path w) path
         = Some (CsvText [''song_name'', ''album_name'', ''artist_name'', ''duration_ms'',
                          ''popularity'', ''played_at''] [])
     \<and> (faults w = [] \<and> bucket_name_of k \<in> buckets w
          \<and> blobs w (bucket_name_of k, raw_object_key k) = Some (JsonText data) \<longrightarrow>
          fst (transform k w) = Inr (bucket_name_of k @ ''/'' @ transformed_object_key k)
          \<and> blobs (snd (transform k w)) (bucket_name_of k, transformed_object_key k)
              = Some (CsvText [''song_name'', ''album_name'', ''artist_name'', ''duration_ms'',
                               ''popularity'', ''played_at''] []))"
proof -
  note t = transform_table_no_items [OF assms]
  have 1: "transform_table data =
           Inr \<lparr>df_columns = [''song_name'', ''album_name'', ''artist_name'', ''duration_ms'',
                               ''popularity'', ''played_at''],
                df_rows = []\<rparr>"
    using t by (simp add: columns_def)
  have 2: "files (to_csv \<lparr>df_columns = columns, df_rows = []\<rparr> path w) path
         = Some (CsvText [''song_name'', ''album_name'', ''artist_name'', ''duration_ms'',
                          ''popularity'', ''played_at''] [])"
    by (simp add: to_csv_def columns_def)
  have 3: "fst (transform k w) = Inr (bucket_name_of k @ ''/'' @ transformed_object_key k)
          \<and> blobs (snd (transform k w)) (bucket_name_of k, transformed_object_key k)
              = Some (CsvText [''song_name'', ''album_name'', ''artist_name'', ''duration_ms'',
                               ''popularity'', ''played_at''] [])"
    if "faults w = []" "bucket_name_of k \<in> buckets w"
      "blobs w (bucket_name_of k, raw_object_key k) = Some (JsonText data)"
    using transform_no_faults [OF that t] by (simp add: columns_def)
  from 1 2 3 show ?thesis by blast
qed

theorem transform_empty_items_witness:
  "field (JObj [(''items'', JList [])]) ''items'' = Some (JList [])
   \<and> transform_table (JObj [(''items'', JList [])]) = Inr \<lparr>df_columns = columns, df_rows = []\<rparr>
   \<and> fst (transform ''poc_etl/raw/x.json''
            (sample_world\<lparr>blobs := (blobs sample_world)
               ((''poc_etl'', ''raw/x.json'') \<mapsto> JsonText (JObj [(''items'', JList [])]))\<rparr>))
       = Inr ''poc_etl/transformed/x.csv''
   \<and> blobs (snd (transform ''poc_etl/raw/x.json''
            (sample_world\<lparr>blobs := (blobs sample_world)
               ((''poc_etl'', ''raw/x.json'') \<mapsto> JsonText (JObj [(''items'', JList [])]))\<rparr>)))
         (''poc_etl'', ''transformed/x.csv'')
       = Some (CsvText columns [])"
proof -
  let ?d = "JObj [(''items'', JList [])]"
  let ?k = "''poc_etl/raw/x.json''"
  let ?w = "sample_world\<lparr>blobs := (blobs sample_world)
               ((''poc_etl'', ''raw/x.json'') \<mapsto> JsonText ?d)\<rparr>"
  have f: "field ?d ''items'' = Some (JList [])"
    by (simp add: field_def)
  have h: "faults ?w = [] \<and> bucket_name_of ?k \<in> buckets ?w
          \<and> blobs ?w (bucket_name_of ?k, raw_object_key ?k) = Some (JsonText ?d)"
    by (simp add: sample_names sample_world_fields)
  note t = transform_empty_items [OF f, of "''/tmp/x.csv''" ?w ?k]
  note t1 = t [THEN conjunct1]
  note t3 = t [THEN conjunct2, THEN conjunct2, rule_format, OF h]
  show ?thesis
    using f t1 t3 by (simp add: sample_names columns_def)
qed

text \<open>
  C9. \<^verbatim>\<open>extract_spotify_data\<close> drops the Boolean of the upload: whenever the request is
  answered with a JSON document, it returns the locator
  \<open>bucket/raw/date_spotify_data.json\<close>, whatever the later calls do. In particular,
  when the bucket does not exist the upload fails, the storage holds no new object, and
  the locator is returned all the same.
\<close>

theorem extract_returns_locator_regardless:
  assumes "fault_at 0 (faults w) = None"
    and "http_get w (api_url (clock_yesterday w * 1000)) (api_headers secret) = JsonText data"
  shows "fst (extract_spotify_data secret bucket_name w)
           = Inr (bucket_name @ ''/raw/'' @ clock_date w @ ''_spotify_data.json'')
         \<and> (bucket_name \<notin> buckets w \<longrightarrow>
              blobs (snd (extract_spotify_data secret bucket_name w)) = blobs w)"
proof -
  let ?w2 = "w\<lparr>faults := drop 1 (faults w),
                files := (files w)(''/home/airflow/spotify_data/raw/'' @ clock_date w
                                     @ ''_spotify_data.json'' \<mapsto> JsonText data)\<rparr>"
  let ?u = "upload_object_to_bucket bucket_name
             (''/home/airflow/spotify_data/raw/'' @ clock_date w @ ''_spotify_data.json'')
             (Some (''raw/'' @ clock_date w @ ''_spotify_data.json'')) ?w2"
  note x = extract_answered [OF assms, of bucket_name]
  have "blobs (snd ?u) = blobs w" if "bucket_name \<notin> buckets w"
  proof -
    have "fst ?u = Inr False"
      using that by (simp add: upload_result)
    then have "blobs (snd ?u) = blobs ?w2"
      by (rule upload_False_blobs)
    then show ?thesis by simp
  qed
  with x show ?thesis by simp
qed

theorem extract_returns_locator_regardless_witness:
  "fst (extract_spotify_data ''token'' ''poc_etl'' sample_world)
     = Inr ''poc_etl/raw/2024-01-02_00-00-00_spotify_data.json''
   \<and> fst (extract_spotify_data ''token'' ''no_such_bucket'' sample_world)
     = Inr ''no_such_bucket/raw/2024-01-02_00-00-00_spotify_data.json''
   \<and> blobs (snd (extract_spotify_data ''token'' ''no_such_bucket'' sample_world))
       (''no_such_bucket'', ''raw/2024-01-02_00-00-00_spotify_data.json'') = None"
proof -
  have a: "fault_at 0 (faults sample_world) = None"
    by (simp add: sample_world_def)
  have b: "http_get sample_world (api_url (clock_yesterday sample_world * 1000))
             (api_headers ''token'') = JsonText sample_document"
    by (simp add: sample_world_def)
  have c: "''no_such_bucket'' \<notin> buckets sample_world" "clock_date sample_world = ''2024-01-02_00-00-00''"
    "blobs sample_world (''no_such_bucket'', ''raw/2024-01-02_00-00-00_spotify_data.json'') = None"
    by (simp_all add: sample_world_def)
  show ?thesis
    using extract_returns_locator_regardless [OF a b, of "''poc_etl''"]
      extract_returns_locator_regardless [OF a b, of "''no_such_bucket''"] c
    by simp
qed

text \<open>
  C10. The loop takes element \<open>0\<close> of the artists of each entry's album without a
  check. When the \<open>items\<close> of the document holds an entry whose list of artists is
  empty, the projection raises instead of returning a data frame: \<^verbatim>\<open>IndexError\<close> when
  the entries before it have the expected shape and its track and album have names, and
  in every case \<^verbatim>\<open>transform\<close>, once it has fetched and decoded the document, ends with
  an exception that nothing catches and stores no object.
\<close>

theorem transform_empty_artists_raises:
  assumes "field data ''items'' = Some (JList entries)"
    and "e \<in> set entries"
    and "entry_artists e = Some (JList [])"
  shows "(\<exists>x. transform_table data = Inl x)
     \<and> (\<forall>good rest t n al an.
          entries = good @ e # rest \<and> (\<forall>g \<in> set good. entry_row g \<noteq> None)
          \<and> field e ''track'' = Some t \<and> field t ''name'' = Some n
          \<and> field t ''album'' = Some al \<and> field al ''name'' = Some an \<longrightarrow>
          transform_table data = Inl IndexError)
     \<and> (fst (transform_try (bucket_name_of k) (raw_object_key k) (raw_local_path k) w) = Inr ()
          \<and> json_load_file (raw_local_path k)
               (snd (transform_try (bucket_name_of k) (raw_object_key k) (raw_local_path k) w))
              = Inr data \<longrightarrow>
          (\<exists>x. fst (transform k w) = Inl (Raised x)) \<and> blobs (snd (transform k w)) = blobs w)"
proof -
  let ?t = "transform_try (bucket_name_of k) (raw_object_key k) (raw_local_path k) w"
  obtain x where x: "transform_table data = Inl x"
    using transform_table_raises_on_empty_artists [OF assms] by blast
  have 2: "transform_table data = Inl IndexError"
    if "entries = good @ e # rest" "\<forall>g \<in> set good. entry_row g \<noteq> None"
      "field e ''track'' = Some t" "field t ''name'' = Some n"
      "field t ''album'' = Some al" "field al ''name'' = Some an"
    for good rest t n al an
  proof -
    have "field al ''artists'' = Some (JList [])"
      using assms(3) that(3,5) by (simp add: entry_artists_def)
    with assms(1) that show ?thesis
      by (intro transform_table_IndexError [of data good e rest t n al an]) simp_all
  qed
  have 3: "(\<exists>x. fst (transform k w) = Inl (Raised x)) \<and> blobs (snd (transform k w)) = blobs w"
    if "fst ?t = Inr ()" "json_load_file (raw_local_path k) (snd ?t) = Inr data"
    using transform_table_raises [OF that x] by (simp add: transform_try_frame)
  from x 2 3 show ?thesis by blast
qed

theorem transform_empty_artists_raises_witness:
  "field (JObj [(''items'', JList [JObj [(''track'', JObj [(''name'', JStr ''A''),
       (''album'', JObj [(''name'', JStr ''B''), (''artists'', JList [])])])]])]) ''items''
     = Some (JList [JObj [(''track'', JObj [(''name'', JStr ''A''),
       (''album'', JObj [(''name'', JStr ''B''), (''artists'', JList [])])])]])
   \<and> entry_artists (JObj [(''track'', JObj [(''name'', JStr ''A''),
       (''album'', JObj [(''name'', JStr ''B''), (''artists'', JList [])])])]) = Some (JList [])
   \<and> transform_table (JObj [(''items'', JList [JObj [(''track'', JObj [(''name'', JStr ''A''),
       (''album'', JObj [(''name'', JStr ''B''), (''artists'', JList [])])])]])]) = Inl IndexError"
proof -
  let ?e = "JObj [(''track'', JObj [(''name'', JStr ''A''),
       (''album'', JObj [(''name'', JStr ''B''), (''artists'', JList [])])])]"
  let ?d = "JObj [(''items'', JList [?e])]"
  have f: "field ?d ''items'' = Some (JList [?e])"
    by (simp add: field_def)
  have m: "?e \<in> set [?e]" by simp
  have a: "entry_artists ?e = Some (JList [])"
    by (simp add: entry_artists_def field_def)
  have h: "[?e] = [] @ ?e # [] \<and> (\<forall>g \<in> set []. entry_row g \<noteq> None)
          \<and> field ?e ''track'' = Some (JObj [(''name'', JStr ''A''),
                (''album'', JObj [(''name'', JStr ''B''), (''artists'', JList [])])])
          \<and> field (JObj [(''name'', JStr ''A''),
                (''album'', JObj [(''name'', JStr ''B''), (''artists'', JList [])])]) ''name''
              = Some (JStr ''A'')
          \<and> field (JObj [(''name'', JStr ''A''),
                (''album'', JObj [(''name'', JStr ''B''), (''artists'', JList [])])]) ''album''
              = Some (JObj [(''name'', JStr ''B''), (''artists'', JList [])])
          \<and> field (JObj [(''name'', JStr ''B''), (''artists'', JList [])]) ''name''
              = Some (JStr ''B'')"
    by (simp add: field_def)
  note t = transform_empty_artists_raises [OF f m a, of "''poc_etl/raw/x.json''" sample_world,
      THEN conjunct2, THEN conjunct1, rule_format, OF h]
  from f a t show ?thesis by simp
qed

end
